theory Spec2Isabelle
  imports Complex_Main "HOL-Library.AList"
begin

section \<open>Collaborating types of the physics world\<close>

text \<open>
  The module \<open>gaming_framework/physics/world.py\<close> works on bodies, points, rectangles,
  body pairs and spatial structures whose classes live in other modules. They are
  modelled here from the way \<open>world.py\<close> uses them and from the specification's interface
  contract. Python numbers are modelled as real numbers; the places where the code
  divides are written out, since a HOL quotient by zero is zero and a Python one is not.
  The time-of-impact solver is modelled a second time in binary64 arithmetic, rounding
  included.
  Points are compared by value, bodies by identity.
\<close>

datatype error = KeyError | ZeroDivisionError

record Point2D =
  px :: real
  py :: real

record Circle =
  center :: Point2D
  radius :: real

record Rectangle =
  top_left :: Point2D
  bottom_right :: Point2D

record Body =
  shape :: Circle
  speed :: Point2D
  mass :: real
  is_static :: bool
  is_tangible :: bool

definition Point :: "real \<Rightarrow> real \<Rightarrow> Point2D" where
  \<comment> \<open>Modelled from the spec: the constructor \<open>Point2D(x, y)\<close> of geometry/shape.py.\<close>
  "Point a b = \<lparr>px = a, py = b\<rparr>"

definition point_center :: "Point2D \<Rightarrow> Point2D" where
  \<comment> \<open>Modelled from the spec: \<open>world.py\<close> reads \<open>new_pos.center\<close> of a predicted position,
     which the specification takes as that position itself.\<close>
  "point_center p = p"

definition point_add :: "Point2D \<Rightarrow> Point2D \<Rightarrow> Point2D" where
  \<comment> \<open>Modelled from the spec: \<open>Point2D.__add__\<close>, componentwise.\<close>
  "point_add p q = Point (px p + px q) (py p + py q)"

definition point_sub :: "Point2D \<Rightarrow> Point2D \<Rightarrow> Point2D" where
  \<comment> \<open>Modelled from the spec: \<open>Point2D.__sub__\<close>, componentwise.\<close>
  "point_sub p q = Point (px p - px q) (py p - py q)"

definition scalar_mult :: "Point2D \<Rightarrow> real \<Rightarrow> Point2D" where
  \<comment> \<open>Modelled from the spec: \<open>Point2D.scalar_mult\<close>.\<close>
  "scalar_mult p k = Point (px p * k) (py p * k)"

definition scalar_div :: "Point2D \<Rightarrow> real \<Rightarrow> error + Point2D" where
  \<comment> \<open>Modelled from the spec: \<open>Point2D.scalar_div\<close>; a Python quotient by zero raises.\<close>
  "scalar_div p k = (if k = 0 then Inl ZeroDivisionError else Inr (Point (px p / k) (py p / k)))"

definition bounding_box :: "Body \<Rightarrow> Circle" where
  \<comment> \<open>Modelled from the spec: the circular bounding volume of a body (centre and radius).\<close>
  "bounding_box body = shape body"

definition position :: "Body \<Rightarrow> Point2D" where
  \<comment> \<open>Modelled from the spec: the position of a body is the centre of its bounding circle.\<close>
  "position body = center (shape body)"

definition predict_position :: "Body \<Rightarrow> real \<Rightarrow> Point2D" where
  \<comment> \<open>Modelled from the spec: the position after \<open>dt\<close> at the current velocity.\<close>
  "predict_position body dt = point_add (position body) (scalar_mult (speed body) dt)"

definition center_to :: "Circle \<Rightarrow> Point2D \<Rightarrow> Circle" where
  \<comment> \<open>Modelled from the spec: a translated copy of the shape centred at the point.\<close>
  "center_to c p = c\<lparr>center := p\<rparr>"

definition body_update :: "Body \<Rightarrow> real \<Rightarrow> Body" where
  \<comment> \<open>Modelled from the spec: \<open>Body.update(dt)\<close> integrates the position from the velocity.\<close>
  "body_update body dt = body\<lparr>shape := center_to (shape body) (predict_position body dt)\<rparr>"

section \<open>Swept-body builder\<close>

text \<open>
  \<open>__calculate_sweept_body\<close> wraps the rectangle in a fresh \<open>Body\<close>; the model keeps the
  identity of that object (\<open>sid\<close>, chosen by the caller) and the rectangle.
\<close>

record SweptBody =
  sid :: nat
  sweept_shape :: Rectangle

definition calculate_sweept_body :: "nat \<Rightarrow> Body \<Rightarrow> Point2D \<Rightarrow> SweptBody" where
  "calculate_sweept_body fresh body new_pos =
     (let top = py (center (bounding_box body)) + radius (bounding_box body);
          left = px (center (bounding_box body)) - radius (bounding_box body);
          bottom = py (point_center new_pos) - radius (bounding_box body);
          right = px (point_center new_pos) + radius (bounding_box body);
          top_left = Point left top;
          bottom_right = Point right bottom
      in \<lparr>sid = fresh, sweept_shape = \<lparr>top_left = top_left, bottom_right = bottom_right\<rparr>\<rparr>)"

section \<open>Time-of-impact solver\<close>

text \<open>
  The value returned by \<open>__time_of_collision\<close>. The square root comes from numpy, so both
  quotients are numpy quotients: a zero divisor does not raise, it yields a value that is
  not a number when the dividend is zero as well. \<open>NaN\<close> stands for that value; every
  comparison with it is false.
\<close>

datatype np_float = Finite real | NaN

definition toc_distance :: "Body \<Rightarrow> Body \<Rightarrow> real" where
  "toc_distance body_a body_b =
     (radius (bounding_box body_a))\<^sup>2
     + 2 * radius (bounding_box body_a) * radius (bounding_box body_b)
     + (radius (bounding_box body_b))\<^sup>2"

definition toc_a :: "Body \<Rightarrow> Body \<Rightarrow> real" where
  "toc_a body_a body_b =
     (px (speed body_a) - px (speed body_b)) * (px (speed body_a) - px (speed body_b))
     + (py (speed body_a) - py (speed body_b)) * (py (speed body_a) - py (speed body_b))"

definition toc_b :: "Body \<Rightarrow> Body \<Rightarrow> real" where
  "toc_b body_a body_b =
     2 * ((px (center (bounding_box body_a)) - px (center (bounding_box body_b)))
            * (px (speed body_a) - px (speed body_b))
          + (py (center (bounding_box body_a)) - py (center (bounding_box body_b)))
            * (py (speed body_a) - py (speed body_b)))"

definition toc_c :: "Body \<Rightarrow> Body \<Rightarrow> real" where
  "toc_c body_a body_b =
     (px (center (bounding_box body_a)) - px (center (bounding_box body_b)))
       * (px (center (bounding_box body_a)) - px (center (bounding_box body_b)))
     + (py (center (bounding_box body_a)) - py (center (bounding_box body_b)))
       * (py (center (bounding_box body_a)) - py (center (bounding_box body_b)))
     - toc_distance body_a body_b"

definition toc_delta :: "Body \<Rightarrow> Body \<Rightarrow> real" where
  "toc_delta body_a body_b =
     (toc_b body_a body_b)\<^sup>2 - 4 * toc_a body_a body_b * toc_c body_a body_b"

definition toc_t1 :: "Body \<Rightarrow> Body \<Rightarrow> real" where
  "toc_t1 body_a body_b =
     (- toc_b body_a body_b - sqrt (toc_delta body_a body_b)) / (2 * toc_a body_a body_b)"

definition toc_t2 :: "Body \<Rightarrow> Body \<Rightarrow> real" where
  "toc_t2 body_a body_b =
     (- toc_b body_a body_b + sqrt (toc_delta body_a body_b)) / (2 * toc_a body_a body_b)"

definition time_of_collision :: "Body \<Rightarrow> Body \<Rightarrow> np_float" where
  "time_of_collision body_a body_b =
     (if toc_delta body_a body_b < 0 then Finite (- 1)
      else if 2 * toc_a body_a body_b = 0 then NaN
      else if toc_t1 body_a body_b < 0 \<and> toc_t2 body_a body_b > 0 \<and> toc_b body_a body_b \<le> 0
        then Finite 0
      else Finite (toc_t1 body_a body_b))"

section \<open>Velocity exchange\<close>

definition update_body_forces :: "Body \<Rightarrow> Body \<Rightarrow> error + (Body \<times> Body)" where
  "update_body_forces body_a body_b =
     (case scalar_div
             (point_add
                (point_add (scalar_mult (speed body_a) (mass body_a))
                           (scalar_mult (speed body_b) (mass body_b)))
                (scalar_mult (point_sub (speed body_b) (speed body_a)) (mass body_b)))
             (mass body_a + mass body_b) of
        Inl e \<Rightarrow> Inl e
      | Inr v1 \<Rightarrow>
          (case scalar_div
                  (point_add
                     (point_add (scalar_mult (speed body_a) (mass body_a))
                                (scalar_mult (speed body_b) (mass body_b)))
                     (scalar_mult (point_sub (speed body_a) (speed body_b)) (mass body_b)))
                  (mass body_a + mass body_b) of
             Inl e \<Rightarrow> Inl e
           | Inr v2 \<Rightarrow>
               Inr (if \<not> is_static body_a then body_a\<lparr>speed := v1\<rparr> else body_a,
                    if \<not> is_static body_b then body_b\<lparr>speed := v2\<rparr> else body_b)))"

section \<open>The world and its per-tick state\<close>

text \<open>
  Bodies are Python objects compared and hashed by identity, and \<open>world.py\<close> mutates them
  in place: the model keeps them in a store indexed by identity. A \<open>BodyPair\<close> holds two
  such identities.
\<close>

type_synonym body_id = nat

datatype BodyPair = BodyPair (pair_body_a: body_id) (pair_body_b: body_id)

definition pair_eq :: "BodyPair \<Rightarrow> BodyPair \<Rightarrow> bool" where
  \<comment> \<open>Modelled from the spec: \<open>BodyPair.__eq__\<close> of physics/body_pair.py; a pair is
     unordered, equality and membership do not depend on the order of the arguments.\<close>
  "pair_eq p q \<longleftrightarrow>
     (pair_body_a p = pair_body_a q \<and> pair_body_b p = pair_body_b q)
     \<or> (pair_body_a p = pair_body_b q \<and> pair_body_b p = pair_body_a q)"

text \<open>
  The geometric predicates belong to the shapes and to the spatial structure, which are
  outside \<open>world.py\<close>; the world takes them as given.
\<close>

record Geometry =
  collides_with :: "Circle \<Rightarrow> Circle \<Rightarrow> bool"
  overlaps_body :: "Circle \<Rightarrow> Rectangle \<Rightarrow> bool"
  overlaps_sweept :: "Rectangle \<Rightarrow> Rectangle \<Rightarrow> bool"

text \<open>
  The fields of \<open>World\<close>. The two dictionaries are association lists in insertion order,
  as Python dictionaries are; \<open>_sweept_bodies\<close> is keyed by the identity of the swept
  body. \<open>allocated\<close> counts the swept bodies created so far and gives the next one its
  identity. \<open>notified\<close> records the calls of \<open>handle_collision\<close>, the application's
  collision response.
\<close>

record World =
  bodies :: "body_id \<Rightarrow> Body"
  spatial_struct :: "body_id list"
  moving_bodies :: "(body_id \<times> (Point2D \<times> Point2D \<times> SweptBody)) list"
  sweept_bodies :: "(nat \<times> body_id) list"
  movement_spatial_struct :: "SweptBody list"
  collision_candidates :: "(real \<times> BodyPair) list"
  allocated :: nat
  notified :: "(body_id \<times> body_id) list"

subsection \<open>The spatial structure and the queue\<close>

definition struct_insert :: "SweptBody \<Rightarrow> SweptBody list \<Rightarrow> SweptBody list" where
  \<comment> \<open>Modelled from the spec: \<open>SpatialStructure.insert\<close>.\<close>
  "struct_insert obj objs = objs @ [obj]"

definition struct_remove :: "SweptBody \<Rightarrow> SweptBody list \<Rightarrow> SweptBody list" where
  \<comment> \<open>Modelled from the spec: \<open>SpatialStructure.remove\<close>, keyed by the object's identity.\<close>
  "struct_remove obj objs = filter (\<lambda>other. sid other \<noteq> sid obj) objs"

definition movement_query :: "Geometry \<Rightarrow> World \<Rightarrow> Rectangle \<Rightarrow> SweptBody list" where
  \<comment> \<open>Modelled from the spec: \<open>SpatialStructure.query\<close> on the movement index, all indexed
     objects whose bounding region overlaps the shape.\<close>
  "movement_query G w region =
     filter (\<lambda>obj. overlaps_sweept G (sweept_shape obj) region) (movement_spatial_struct w)"

definition static_query :: "Geometry \<Rightarrow> World \<Rightarrow> Rectangle \<Rightarrow> body_id list" where
  \<comment> \<open>Modelled from the spec: \<open>SpatialStructure.query\<close> on the static index.\<close>
  "static_query G w region =
     filter (\<lambda>obj. overlaps_body G (bounding_box (bodies w obj)) region) (spatial_struct w)"

text \<open>
  \<open>heapq\<close> keeps the candidates so that the entry of least time is popped first. The model
  keeps the list ordered by time; among entries of equal time the earlier pushed comes
  first. The code's order among entries of equal time follows the ordering of body pairs
  and the layout of the heap, and can differ from this one when more than two entries
  are queued.
\<close>

fun heappush :: "(real \<times> BodyPair) list \<Rightarrow> real \<times> BodyPair \<Rightarrow> (real \<times> BodyPair) list" where
  "heappush [] item = [item]"
| "heappush (x # xs) item = (if fst item < fst x then item # x # xs else x # heappush xs item)"

definition body_handle_collision :: "body_id \<Rightarrow> body_id \<Rightarrow> World \<Rightarrow> World" where
  \<comment> \<open>Modelled from the spec: \<open>Body.handle_collision(other)\<close>, the collision-response
     callback; the model records the call.\<close>
  "body_handle_collision body other w = w\<lparr>notified := notified w @ [(body, other)]\<rparr>"

definition store_update :: "body_id \<Rightarrow> real \<Rightarrow> World \<Rightarrow> World" where
  \<comment> \<open>The call \<open>body.update(dt)\<close> on the object with this identity.\<close>
  "store_update body dt w = w\<lparr>bodies := (bodies w)(body := body_update (bodies w body) dt)\<rparr>"

subsection \<open>Candidate generation\<close>

definition push_to_collision_candidates :: "BodyPair \<Rightarrow> real \<Rightarrow> real \<Rightarrow> World \<Rightarrow> World" where
  "push_to_collision_candidates pair delta_time start_time w =
     (case time_of_collision (bodies w (pair_body_a pair)) (bodies w (pair_body_b pair)) of
        NaN \<Rightarrow> w
      | Finite toc \<Rightarrow>
          if 0 \<le> toc \<and> toc \<le> start_time + delta_time
          then w\<lparr>collision_candidates := heappush (collision_candidates w) (toc, pair)\<rparr>
          else w)"

definition remove_moving_body :: "body_id \<Rightarrow> World \<Rightarrow> error + World" where
  "remove_moving_body body w =
     (case map_of (moving_bodies w) body of
        None \<Rightarrow> Inr w
      | Some (_, _, sweept_body) \<Rightarrow>
          (case map_of (sweept_bodies w) (sid sweept_body) of
             None \<Rightarrow> Inl KeyError
           | Some _ \<Rightarrow>
               Inr (w\<lparr>moving_bodies := AList.delete body (moving_bodies w),
                       sweept_bodies := AList.delete (sid sweept_body) (sweept_bodies w),
                       movement_spatial_struct :=
                         struct_remove sweept_body (movement_spatial_struct w)\<rparr>)))"

definition predict_movement :: "body_id \<Rightarrow> real \<Rightarrow> World \<Rightarrow> World" where
  "predict_movement body delta_time w =
     (if is_static (bodies w body) then w
      else
        let new_pos = predict_position (bodies w body) delta_time in
        if new_pos = position (bodies w body) then w
        else
          let sweept_body = calculate_sweept_body (allocated w) (bodies w body) new_pos in
          w\<lparr>moving_bodies :=
              AList.update body (position (bodies w body), new_pos, sweept_body) (moving_bodies w),
            sweept_bodies := AList.update (sid sweept_body) body (sweept_bodies w),
            movement_spatial_struct := struct_insert sweept_body (movement_spatial_struct w),
            allocated := Suc (allocated w)\<rparr>)"

text \<open>
  The loop shared by the two queries: a candidate not yet in the local list \<open>pairs\<close> is
  appended to it and pushed.
\<close>

fun push_new_pairs :: "BodyPair list \<Rightarrow> BodyPair list \<Rightarrow> real \<Rightarrow> real \<Rightarrow> World \<Rightarrow> World" where
  "push_new_pairs [] pairs delta_time start_time w = w"
| "push_new_pairs (candidate # rest) pairs delta_time start_time w =
     (if \<not> list_ex (\<lambda>p. pair_eq p candidate) pairs
      then push_new_pairs rest (pairs @ [candidate]) delta_time start_time
             (push_to_collision_candidates candidate delta_time start_time w)
      else push_new_pairs rest pairs delta_time start_time w)"

text \<open>The generator of the moving query: one pair per overlapping proxy of another body.\<close>

fun moving_candidates :: "body_id \<Rightarrow> SweptBody \<Rightarrow> SweptBody list \<Rightarrow> World \<Rightarrow> error + BodyPair list" where
  "moving_candidates body sweept_body [] w = Inr []"
| "moving_candidates body sweept_body (sweept_body_b # rest) w =
     (if sid sweept_body \<noteq> sid sweept_body_b
      then (case map_of (sweept_bodies w) (sid sweept_body_b) of
              None \<Rightarrow> Inl KeyError
            | Some other \<Rightarrow>
                if body \<noteq> other
                then (case moving_candidates body sweept_body rest w of
                        Inl e \<Rightarrow> Inl e
                      | Inr pairs \<Rightarrow> Inr (BodyPair body other # pairs))
                else moving_candidates body sweept_body rest w)
      else moving_candidates body sweept_body rest w)"

definition query_collisions_with_moving_bodies ::
  "Geometry \<Rightarrow> body_id \<Rightarrow> real \<Rightarrow> real \<Rightarrow> World \<Rightarrow> error + World" where
  "query_collisions_with_moving_bodies G body delta_time start_time w =
     (case map_of (moving_bodies w) body of
        None \<Rightarrow> Inl KeyError
      | Some (_, _, sweept_body) \<Rightarrow>
          (case moving_candidates body sweept_body
                  (movement_query G w (sweept_shape sweept_body)) w of
             Inl e \<Rightarrow> Inl e
           | Inr candidates \<Rightarrow> Inr (push_new_pairs candidates [] delta_time start_time w)))"

definition query_collisions_with_static_bodies ::
  "Geometry \<Rightarrow> body_id \<Rightarrow> real \<Rightarrow> real \<Rightarrow> World \<Rightarrow> error + World" where
  "query_collisions_with_static_bodies G body delta_time start_time w =
     (case map_of (moving_bodies w) body of
        None \<Rightarrow> Inl KeyError
      | Some (_, _, sweept_body) \<Rightarrow>
          Inr (push_new_pairs
                 (map (BodyPair body)
                    (filter (\<lambda>static_body. map_of (moving_bodies w) static_body = None)
                       (static_query G w (sweept_shape sweept_body))))
                 [] delta_time start_time w))"

definition update_collision_candidates ::
  "Geometry \<Rightarrow> body_id \<Rightarrow> real \<Rightarrow> real \<Rightarrow> World \<Rightarrow> error + World" where
  "update_collision_candidates G body delta_time start_time w =
     (if map_of (moving_bodies w) body = None then Inr w
      else (case query_collisions_with_moving_bodies G body delta_time start_time w of
              Inl e \<Rightarrow> Inl e
            | Inr w' \<Rightarrow> query_collisions_with_static_bodies G body delta_time start_time w'))"

subsection \<open>Resolution\<close>

definition handle_contact :: "body_id \<Rightarrow> body_id \<Rightarrow> real \<Rightarrow> real \<Rightarrow> World \<Rightarrow> error + World" where
  "handle_contact body_a body_b current_time end_time w =
     (case remove_moving_body body_a w of
        Inl e \<Rightarrow> Inl e
      | Inr w1 \<Rightarrow>
          (case remove_moving_body body_b w1 of
             Inl e \<Rightarrow> Inl e
           | Inr w2 \<Rightarrow>
               let remaining_time = end_time - current_time
               in Inr (predict_movement body_b remaining_time
                         (predict_movement body_a remaining_time w2))))"

definition store_update_body_forces :: "body_id \<Rightarrow> body_id \<Rightarrow> World \<Rightarrow> error + World" where
  \<comment> \<open>\<open>__update_body_forces\<close> on the two objects of the store: the assignment to
     \<open>body_a.speed\<close> comes first, the one to \<open>body_b.speed\<close> second.\<close>
  "store_update_body_forces body_a body_b w =
     (case update_body_forces (bodies w body_a) (bodies w body_b) of
        Inl e \<Rightarrow> Inl e
      | Inr (new_a, new_b) \<Rightarrow>
          Inr (w\<lparr>bodies := (bodies w)(body_a := new_a, body_b := new_b)\<rparr>))"

definition resolve_collision ::
  "body_id \<Rightarrow> body_id \<Rightarrow> real \<Rightarrow> real \<Rightarrow> real \<Rightarrow> World \<Rightarrow> error + World" where
  "resolve_collision body_a body_b toc current_time end_time w =
     (case (if is_tangible (bodies w body_a) \<and> is_tangible (bodies w body_b)
            then
              let time_diff = (if toc = 0 then 1 / 100 else 0) in
              (case store_update_body_forces body_a body_b
                      (store_update body_b (current_time - time_diff)
                         (store_update body_a (current_time - time_diff) w)) of
                 Inl e \<Rightarrow> Inl e
               | Inr w' \<Rightarrow> handle_contact body_a body_b current_time end_time w')
            else Inr w) of
        Inl e \<Rightarrow> Inl e
      | Inr w' \<Rightarrow>
          Inr (body_handle_collision body_b body_a (body_handle_collision body_a body_b w')))"

text \<open>
  The shape a body is compared with in the narrow phase (the local variables
  \<open>comparing_shape_a\<close> and \<open>comparing_shape_b\<close> of \<open>__check_collision\<close>): the true
  shape, moved to the position predicted for the time of impact when the body holds a
  moving record and that time is positive.
\<close>

definition comparing_shape :: "World \<Rightarrow> body_id \<Rightarrow> real \<Rightarrow> Circle" where
  "comparing_shape w body toc =
     (if map_of (moving_bodies w) body \<noteq> None \<and> toc > 0
      then center_to (shape (bodies w body)) (predict_position (bodies w body) toc)
      else shape (bodies w body))"

definition check_collision ::
  "Geometry \<Rightarrow> body_id \<Rightarrow> body_id \<Rightarrow> real \<Rightarrow> real \<Rightarrow> real \<Rightarrow> World \<Rightarrow> error + World" where
  "check_collision G body_a body_b toc current_time end_time w =
     (let comparing_shape_a = comparing_shape w body_a toc;
          comparing_shape_b = comparing_shape w body_b toc
      in if collides_with G comparing_shape_a comparing_shape_b
         then resolve_collision body_a body_b toc current_time end_time w
         else Inr w)"

subsection \<open>The resolution loop\<close>

text \<open>
  \<open>detect_loop\<close> is the \<open>while\<close> loop of \<open>__detect_collisions\<close>, with the local variable
  \<open>current_time\<close> as an argument; \<open>detect_collisions\<close> starts it at 0. Nothing that runs
  inside the loop pushes a candidate, so every iteration shortens the queue by the entry
  it pops; this is what makes the loop end.
\<close>

lemma predict_movement_candidates:
  "collision_candidates (predict_movement body delta_time w) = collision_candidates w"
  by (simp add: predict_movement_def Let_def)

lemma remove_moving_body_candidates:
  "remove_moving_body body w = Inr w' \<Longrightarrow> collision_candidates w' = collision_candidates w"
  by (auto simp: remove_moving_body_def split: option.splits)

lemma handle_contact_candidates:
  "handle_contact body_a body_b current_time end_time w = Inr w' \<Longrightarrow>
     collision_candidates w' = collision_candidates w"
  by (auto simp: handle_contact_def Let_def predict_movement_candidates
           dest!: remove_moving_body_candidates split: sum.splits)

lemma resolve_collision_candidates:
  "resolve_collision body_a body_b toc current_time end_time w = Inr w' \<Longrightarrow>
     collision_candidates w' = collision_candidates w"
  by (auto simp: resolve_collision_def Let_def body_handle_collision_def
                 store_update_body_forces_def store_update_def
           dest!: handle_contact_candidates split: sum.splits if_splits)

lemma check_collision_candidates:
  "check_collision G body_a body_b toc current_time end_time w = Inr w' \<Longrightarrow>
     collision_candidates w' = collision_candidates w"
  by (auto simp: check_collision_def Let_def dest: resolve_collision_candidates
           split: if_splits)

function detect_loop :: "Geometry \<Rightarrow> real \<Rightarrow> real \<Rightarrow> World \<Rightarrow> error + World" where
  "detect_loop G delta_time current_time w =
     (case collision_candidates w of
        [] \<Rightarrow> Inr w
      | (toc, pair) # rest \<Rightarrow>
          (case check_collision G (pair_body_a pair) (pair_body_b pair) toc current_time
                  delta_time (w\<lparr>collision_candidates := rest\<rparr>) of
             Inl e \<Rightarrow> Inl e
           | Inr w' \<Rightarrow> detect_loop G delta_time (current_time + toc) w'))"
  by pat_completeness auto
termination
  by (relation "measure (\<lambda>(G, delta_time, current_time, w). length (collision_candidates w))")
     (auto dest: check_collision_candidates)

declare detect_loop.simps [simp del]

definition detect_collisions :: "Geometry \<Rightarrow> real \<Rightarrow> World \<Rightarrow> error + World" where
  "detect_collisions G delta_time w = detect_loop G delta_time 0 w"

subsection \<open>One tick\<close>

fun broadphase :: "Geometry \<Rightarrow> body_id list \<Rightarrow> real \<Rightarrow> World \<Rightarrow> error + World" where
  "broadphase G [] delta_time w = Inr w"
| "broadphase G (body # rest) delta_time w =
     (case update_collision_candidates G body delta_time 0 w of
        Inl e \<Rightarrow> Inl e
      | Inr w' \<Rightarrow> broadphase G rest delta_time w')"

text \<open>
  RESET empties the two dictionaries and the queue and takes an empty copy of the static
  index as the movement index (modelled from the spec: \<open>SpatialStructure.empty_copy\<close> gives
  an empty structure and \<open>get_objects\<close> the indexed objects). PREDICT and COMMIT are the
  two \<open>for\<close> loops of \<open>update\<close>, BROADPHASE the loop over the bodies that hold a moving
  record. The field \<open>visible_area\<close> takes no part in a tick and is left out.
\<close>

definition reset :: "World \<Rightarrow> World" where
  "reset w = w\<lparr>moving_bodies := [], sweept_bodies := [], movement_spatial_struct := [],
               collision_candidates := []\<rparr>"

definition predict_all :: "real \<Rightarrow> World \<Rightarrow> World" where
  "predict_all delta_time w =
     fold (\<lambda>body. predict_movement body delta_time) (spatial_struct w) w"

definition commit :: "real \<Rightarrow> World \<Rightarrow> World" where
  "commit delta_time w = fold (\<lambda>body. store_update body delta_time) (map fst (moving_bodies w)) w"

text \<open>
  \<open>update\<close> runs RESET, PREDICT, BROADPHASE and RESOLVE, and then COMMIT on the state they
  leave; \<open>before_commit\<close> names the first four.
\<close>

definition before_commit :: "Geometry \<Rightarrow> real \<Rightarrow> World \<Rightarrow> error + World" where
  "before_commit G delta_time w =
     (let w1 = predict_all delta_time (reset w)
      in case broadphase G (map fst (moving_bodies w1)) delta_time w1 of
           Inl e \<Rightarrow> Inl e
         | Inr w2 \<Rightarrow> detect_collisions G delta_time w2)"

definition update :: "Geometry \<Rightarrow> real \<Rightarrow> World \<Rightarrow> error + World" where
  "update G delta_time w =
     (case before_commit G delta_time w of
        Inl e \<Rightarrow> Inl e
      | Inr w3 \<Rightarrow> Inr (commit delta_time w3))"

section \<open>Properties stated about the world\<close>

text \<open>The number of queued candidates whose pair equals a given unordered pair.\<close>

definition count_pair :: "BodyPair \<Rightarrow> (real \<times> BodyPair) list \<Rightarrow> nat" where
  "count_pair p candidates = length (filter (\<lambda>item. pair_eq (snd item) p) candidates)"

text \<open>
  No static body holds a moving record, and every proxy in the movement index belongs,
  through the side table \<open>_sweept_bodies\<close>, to a body that is not static.
\<close>

definition static_free :: "World \<Rightarrow> bool" where
  "static_free w \<longleftrightarrow>
     list_all (\<lambda>entry. \<not> is_static (bodies w (fst entry))) (moving_bodies w)
     \<and> list_all (\<lambda>obj. case map_of (sweept_bodies w) (sid obj) of
                          None \<Rightarrow> False
                        | Some body \<Rightarrow> \<not> is_static (bodies w body))
          (movement_spatial_struct w)"

text \<open>A dictionary holds each key once.\<close>

definition keys_distinct :: "World \<Rightarrow> bool" where
  "keys_distinct w \<longleftrightarrow> distinct (map fst (moving_bodies w))"

section \<open>Reference values and sample worlds\<close>



text \<open>A tangible, non-static ball: centre, radius, velocity, mass.\<close>

definition ball :: "real \<Rightarrow> real \<Rightarrow> real \<Rightarrow> real \<Rightarrow> real \<Rightarrow> real \<Rightarrow> Body" where
  "ball cx cy r vx vy m =
     \<lparr>shape = \<lparr>center = Point cx cy, radius = r\<rparr>, speed = Point vx vy, mass = m,
      is_static = False, is_tangible = True\<rparr>"

text \<open>
  A plane geometry for the sample worlds: circles collide when their centres are no
  further apart than the sum of the radii, and regions overlap when their axis-aligned
  boxes do.
\<close>

definition plane_geometry :: Geometry where
  "plane_geometry =
     \<lparr>collides_with =
        (\<lambda>c d. (px (center c) - px (center d))\<^sup>2 + (py (center c) - py (center d))\<^sup>2
                 \<le> (radius c + radius d)\<^sup>2),
      overlaps_body =
        (\<lambda>c r. px (top_left r) \<le> px (center c) + radius c
               \<and> px (center c) - radius c \<le> px (bottom_right r)
               \<and> py (bottom_right r) \<le> py (center c) + radius c
               \<and> py (center c) - radius c \<le> py (top_left r)),
      overlaps_sweept =
        (\<lambda>r q. px (top_left r) \<le> px (bottom_right q)
               \<and> px (top_left q) \<le> px (bottom_right r)
               \<and> py (bottom_right r) \<le> py (top_left q)
               \<and> py (bottom_right q) \<le> py (top_left r))\<rparr>"

text \<open>A store with body 0, body 1 and a resting ball under every other identity.\<close>

definition store2 :: "Body \<Rightarrow> Body \<Rightarrow> body_id \<Rightarrow> Body" where
  "store2 A B = (\<lambda>i. if i = 0 then A else if i = 1 then B else ball 0 0 1 0 0 1)"

definition proxy :: "nat \<Rightarrow> real \<Rightarrow> real \<Rightarrow> real \<Rightarrow> real \<Rightarrow> SweptBody" where
  "proxy n l t r b =
     \<lparr>sid = n, sweept_shape = \<lparr>top_left = Point l t, bottom_right = Point r b\<rparr>\<rparr>"

text \<open>
  Two balls of radius 5 and mass 1 on a line, 20 apart, closing with speeds 8 and 2: they
  touch at time 1 of a tick of duration 2. The worlds below are the states of that tick
  after PREDICT, BROADPHASE, RESOLVE and COMMIT.
\<close>

definition two_balls :: World where
  "two_balls =
     \<lparr>bodies = store2 (ball 0 0 5 8 0 1) (ball 20 0 5 (- 2) 0 1),
      spatial_struct = [0, 1], moving_bodies = [], sweept_bodies = [],
      movement_spatial_struct = [], collision_candidates = [], allocated = 0, notified = []\<rparr>"

definition two_balls_predicted :: World where
  "two_balls_predicted =
     \<lparr>bodies = store2 (ball 0 0 5 8 0 1) (ball 20 0 5 (- 2) 0 1),
      spatial_struct = [0, 1],
      moving_bodies = [(0, (Point 0 0, Point 16 0, proxy 0 (- 5) 5 21 (- 5))),
                       (1, (Point 20 0, Point 16 0, proxy 1 15 5 21 (- 5)))],
      sweept_bodies = [(0, 0), (1, 1)],
      movement_spatial_struct = [proxy 0 (- 5) 5 21 (- 5), proxy 1 15 5 21 (- 5)],
      collision_candidates = [], allocated = 2, notified = []\<rparr>"

definition two_balls_queued :: World where
  "two_balls_queued =
     two_balls_predicted\<lparr>collision_candidates := [(1, BodyPair 0 1), (1, BodyPair 1 0)]\<rparr>"

definition two_balls_resolved :: World where
  "two_balls_resolved =
     \<lparr>bodies = store2 (ball 0 0 5 (- 2) 0 1) (ball 20 0 5 8 0 1),
      spatial_struct = [0, 1],
      moving_bodies = [(0, (Point 0 0, Point (- 4) 0, proxy 2 (- 5) 5 1 (- 5))),
                       (1, (Point 20 0, Point 36 0, proxy 3 15 5 41 (- 5)))],
      sweept_bodies = [(2, 0), (3, 1)],
      movement_spatial_struct = [proxy 2 (- 5) 5 1 (- 5), proxy 3 15 5 41 (- 5)],
      collision_candidates = [], allocated = 4, notified = [(0, 1), (1, 0)]\<rparr>"

definition two_balls_committed :: World where
  "two_balls_committed =
     two_balls_resolved\<lparr>bodies := store2 (ball (- 4) 0 5 (- 2) 0 1) (ball 36 0 5 8 0 1)\<rparr>"

text \<open>
  Variants of the sample: the second ball intangible, and the second ball static with
  its velocity kept.
\<close>

definition ghost_world :: World where
  "ghost_world =
     two_balls_queued\<lparr>bodies := store2 (ball 0 0 5 8 0 1)
                                    ((ball 20 0 5 (- 2) 0 1)\<lparr>is_tangible := False\<rparr>)\<rparr>"

definition drifting_wall_world :: World where
  "drifting_wall_world =
     two_balls\<lparr>bodies := store2 (ball 0 0 5 8 0 1)
                              ((ball 20 0 5 (- 2) 0 1)\<lparr>is_static := True\<rparr>)\<rparr>"

text \<open>
  A ball that runs into a resting static body of the same size: the contact is found at
  time 5/4 of a tick of duration 2. The worlds are the states after PREDICT, BROADPHASE
  and RESOLVE, the state in which the contact is handled, and the state that leaves.
\<close>

definition wall :: Body where
  "wall = (ball 20 0 5 0 0 1)\<lparr>is_static := True\<rparr>"

definition wall_world :: World where
  "wall_world =
     \<lparr>bodies = store2 (ball 0 0 5 8 0 1) wall,
      spatial_struct = [0, 1], moving_bodies = [], sweept_bodies = [],
      movement_spatial_struct = [], collision_candidates = [], allocated = 0, notified = []\<rparr>"

definition wall_predicted :: World where
  "wall_predicted =
     wall_world\<lparr>moving_bodies := [(0, (Point 0 0, Point 16 0, proxy 0 (- 5) 5 21 (- 5)))],
                sweept_bodies := [(0, 0)],
                movement_spatial_struct := [proxy 0 (- 5) 5 21 (- 5)],
                allocated := 1\<rparr>"

definition wall_queued :: World where
  "wall_queued = wall_predicted\<lparr>collision_candidates := [(5 / 4, BodyPair 0 1)]\<rparr>"

definition wall_stopped :: World where
  "wall_stopped = wall_predicted\<lparr>bodies := store2 (ball 0 0 5 0 0 1) wall\<rparr>"

definition wall_handled :: World where
  "wall_handled = wall_world\<lparr>bodies := store2 (ball 0 0 5 0 0 1) wall, allocated := 1\<rparr>"

definition wall_resolved :: World where
  "wall_resolved = wall_handled\<lparr>notified := [(0, 1), (1, 0)]\<rparr>"

text \<open>
  Two lanes far apart, each with a ball that runs into a resting static body: ball 0 as
  before, with the contact found at time 5/4, and ball 2 of mass 3 with speed 5, with the
  contact found at time 2, the end of the tick. The worlds are the states after PREDICT
  and BROADPHASE, after the first popped candidate, after RESOLVE and after COMMIT.
\<close>

definition store4 :: "Body \<Rightarrow> Body \<Rightarrow> Body \<Rightarrow> Body \<Rightarrow> body_id \<Rightarrow> Body" where
  "store4 A B C D =
     (\<lambda>i. if i = 0 then A else if i = 1 then B else if i = 2 then C else if i = 3 then D
          else ball 0 0 1 0 0 1)"

definition far_wall :: Body where
  "far_wall = (ball 20 100 5 0 0 1)\<lparr>is_static := True\<rparr>"

definition lanes :: World where
  "lanes =
     \<lparr>bodies = store4 (ball 0 0 5 8 0 1) wall (ball 0 100 5 5 0 3) far_wall,
      spatial_struct = [0, 1, 2, 3], moving_bodies = [], sweept_bodies = [],
      movement_spatial_struct = [], collision_candidates = [], allocated = 0, notified = []\<rparr>"

definition lanes_predicted :: World where
  "lanes_predicted =
     lanes\<lparr>moving_bodies := [(0, (Point 0 0, Point 16 0, proxy 0 (- 5) 5 21 (- 5))),
                          (2, (Point 0 100, Point 10 100, proxy 1 (- 5) 105 15 95))],
           sweept_bodies := [(0, 0), (1, 2)],
           movement_spatial_struct := [proxy 0 (- 5) 5 21 (- 5), proxy 1 (- 5) 105 15 95],
           allocated := 2\<rparr>"

definition lanes_queued :: World where
  "lanes_queued =
     lanes_predicted\<lparr>collision_candidates := [(5 / 4, BodyPair 0 1), (2, BodyPair 2 3)]\<rparr>"

definition lanes_first :: World where
  "lanes_first =
     lanes\<lparr>bodies := store4 (ball 0 0 5 0 0 1) wall (ball 0 100 5 5 0 3) far_wall,
           moving_bodies := [(2, (Point 0 100, Point 10 100, proxy 1 (- 5) 105 15 95))],
           sweept_bodies := [(1, 2)],
           movement_spatial_struct := [proxy 1 (- 5) 105 15 95],
           collision_candidates := [(2, BodyPair 2 3)],
           allocated := 2, notified := [(0, 1), (1, 0)]\<rparr>"

definition lanes_resolved :: World where
  "lanes_resolved =
     lanes\<lparr>bodies := store4 (ball 0 0 5 0 0 1) wall (ball (25 / 4) 100 5 (5 / 2) 0 3) far_wall,
           moving_bodies := [(2, (Point (25 / 4) 100, Point (65 / 8) 100,
                                  proxy 2 (5 / 4) 105 (105 / 8) 95))],
           sweept_bodies := [(2, 2)],
           movement_spatial_struct := [proxy 2 (5 / 4) 105 (105 / 8) 95],
           allocated := 3, notified := [(0, 1), (1, 0), (2, 3), (3, 2)]\<rparr>"

definition lanes_committed :: World where
  "lanes_committed =
     lanes_resolved\<lparr>bodies := store4 (ball 0 0 5 0 0 1) wall (ball (45 / 4) 100 5 (5 / 2) 0 3)
                                    far_wall\<rparr>"

section \<open>The solver in binary64 arithmetic\<close>

text \<open>
  Python floats are IEEE 754 binary64 numbers, and the solver's result is compared with
  exact values and with itself. The solver is therefore given a second rendering in which
  every operation rounds as binary64 does: to the nearest double, a tie going to the even
  significand. A finite double is modelled by the real number it denotes.

  \<open>f64_exponent x\<close> is the exponent of the binade of \<open>x\<close>, held at \<open>-1022\<close> below the smallest
  normal double, where the doubles are equally spaced; \<open>f64_ulp x\<close> is the distance between
  neighbouring doubles there, and \<open>f64_round x\<close> the double nearest to \<open>x\<close>.

  Left out: a rounded result beyond the largest double (overflow to infinity), and the
  sign of a zero. The only divisor of the solver, \<open>2 * a\<close>, is a sum of squares and so a
  positive zero when it is zero.
\<close>

definition round_half_even :: "real \<Rightarrow> int" where
  "round_half_even x =
     (if x - of_int \<lfloor>x\<rfloor> < 1 / 2 then \<lfloor>x\<rfloor>
      else if 1 / 2 < x - of_int \<lfloor>x\<rfloor> then \<lfloor>x\<rfloor> + 1
      else if even \<lfloor>x\<rfloor> then \<lfloor>x\<rfloor> else \<lfloor>x\<rfloor> + 1)"

definition f64_exponent :: "real \<Rightarrow> int" where
  "f64_exponent x = max \<lfloor>log 2 \<bar>x\<bar>\<rfloor> (- 1022)"

definition f64_ulp :: "real \<Rightarrow> real" where
  "f64_ulp x = 2 powr (of_int (f64_exponent x) - 52)"

definition f64_round :: "real \<Rightarrow> real" where
  "f64_round x = (if x = 0 then 0 else of_int (round_half_even (x / f64_ulp x)) * f64_ulp x)"

text \<open>
  The operations of the solver. Sum, difference, product, quotient and \<open>np.sqrt\<close> are
  correctly rounded in binary64. Python evaluates \<open>x**2\<close> with the C library's \<open>pow\<close>;
  \<open>f64_square\<close> is the correctly rounded square, which \<open>pow\<close> returns unless the square
  lies next to the midpoint of two doubles. Every square taken in the sample computations
  below is exact or within a twentieth of a unit in the last place of a double.
\<close>

definition f64_add :: "real \<Rightarrow> real \<Rightarrow> real" where
  "f64_add x y = f64_round (x + y)"

definition f64_sub :: "real \<Rightarrow> real \<Rightarrow> real" where
  "f64_sub x y = f64_round (x - y)"

definition f64_mul :: "real \<Rightarrow> real \<Rightarrow> real" where
  "f64_mul x y = f64_round (x * y)"

definition f64_square :: "real \<Rightarrow> real" where
  "f64_square x = f64_round (x * x)"

definition f64_sqrt :: "real \<Rightarrow> real" where
  "f64_sqrt x = f64_round (sqrt x)"

text \<open>
  The dividends of the solver are numpy values, so a zero divisor yields an infinity or,
  with a zero dividend, a value that is not a number. An infinity is below or above
  zero; every comparison with the value that is not a number is false.
\<close>

datatype f64 = Double real | PlusInf | MinusInf | NotNumber

definition f64_div :: "real \<Rightarrow> real \<Rightarrow> f64" where
  "f64_div x y =
     (if y = 0 then (if x = 0 then NotNumber else if 0 < x then PlusInf else MinusInf)
      else Double (f64_round (x / y)))"

definition below_zero :: "f64 \<Rightarrow> bool" where
  "below_zero t = (case t of Double v \<Rightarrow> v < 0 | MinusInf \<Rightarrow> True | _ \<Rightarrow> False)"

definition above_zero :: "f64 \<Rightarrow> bool" where
  "above_zero t = (case t of Double v \<Rightarrow> 0 < v | PlusInf \<Rightarrow> True | _ \<Rightarrow> False)"

text \<open>
  \<open>__time_of_collision\<close>, operation by operation and in the order Python evaluates them:
  \<open>distance\<close> is \<open>(ra**2 + (2 * ra) * rb) + rb**2\<close>, and \<open>4 * a * c\<close> is \<open>(4 * a) * c\<close>.
  \<open>f64_centres\<close> is the minuend of \<open>c\<close>.
\<close>

definition f64_distance :: "Body \<Rightarrow> Body \<Rightarrow> real" where
  "f64_distance body_a body_b =
     f64_add
       (f64_add (f64_square (radius (bounding_box body_a)))
                (f64_mul (f64_mul 2 (radius (bounding_box body_a))) (radius (bounding_box body_b))))
       (f64_square (radius (bounding_box body_b)))"

definition f64_a :: "Body \<Rightarrow> Body \<Rightarrow> real" where
  "f64_a body_a body_b =
     f64_add
       (f64_mul (f64_sub (px (speed body_a)) (px (speed body_b)))
                (f64_sub (px (speed body_a)) (px (speed body_b))))
       (f64_mul (f64_sub (py (speed body_a)) (py (speed body_b)))
                (f64_sub (py (speed body_a)) (py (speed body_b))))"

definition f64_b :: "Body \<Rightarrow> Body \<Rightarrow> real" where
  "f64_b body_a body_b =
     f64_mul 2
       (f64_add
          (f64_mul (f64_sub (px (center (bounding_box body_a))) (px (center (bounding_box body_b))))
                   (f64_sub (px (speed body_a)) (px (speed body_b))))
          (f64_mul (f64_sub (py (center (bounding_box body_a))) (py (center (bounding_box body_b))))
                   (f64_sub (py (speed body_a)) (py (speed body_b)))))"

definition f64_centres :: "Body \<Rightarrow> Body \<Rightarrow> real" where
  "f64_centres body_a body_b =
     f64_add
       (f64_mul (f64_sub (px (center (bounding_box body_a))) (px (center (bounding_box body_b))))
                (f64_sub (px (center (bounding_box body_a))) (px (center (bounding_box body_b)))))
       (f64_mul (f64_sub (py (center (bounding_box body_a))) (py (center (bounding_box body_b))))
                (f64_sub (py (center (bounding_box body_a))) (py (center (bounding_box body_b)))))"

definition f64_c :: "Body \<Rightarrow> Body \<Rightarrow> real" where
  "f64_c body_a body_b = f64_sub (f64_centres body_a body_b) (f64_distance body_a body_b)"

definition f64_delta :: "Body \<Rightarrow> Body \<Rightarrow> real" where
  "f64_delta body_a body_b =
     f64_sub (f64_square (f64_b body_a body_b))
             (f64_mul (f64_mul 4 (f64_a body_a body_b)) (f64_c body_a body_b))"

definition f64_t1 :: "Body \<Rightarrow> Body \<Rightarrow> f64" where
  "f64_t1 body_a body_b =
     f64_div (f64_sub (- f64_b body_a body_b) (f64_sqrt (f64_delta body_a body_b)))
             (f64_mul 2 (f64_a body_a body_b))"

definition f64_t2 :: "Body \<Rightarrow> Body \<Rightarrow> f64" where
  "f64_t2 body_a body_b =
     f64_div (f64_add (- f64_b body_a body_b) (f64_sqrt (f64_delta body_a body_b)))
             (f64_mul 2 (f64_a body_a body_b))"

definition time_of_collision_f64 :: "Body \<Rightarrow> Body \<Rightarrow> f64" where
  "time_of_collision_f64 body_a body_b =
     (if f64_delta body_a body_b < 0 then Double (- 1)
      else if below_zero (f64_t1 body_a body_b) \<and> above_zero (f64_t2 body_a body_b)
              \<and> f64_b body_a body_b \<le> 0
        then Double 0
      else f64_t1 body_a body_b)"

subsection \<open>Sample doubles and sample pairs\<close>

text \<open>
  The doubles that the sample computations meet, each given exactly as a fraction with
  the decimal that Python prints for it.
\<close>

definition d3_7 :: real where
  \<comment> \<open>the double written 3.7\<close>
  "d3_7 = 4165829655317709 / 1125899906842624"

definition d6_95 :: real where
  \<comment> \<open>the double written 6.95\<close>
  "d6_95 = 7825004352556237 / 1125899906842624"

definition d2_1 :: real where
  \<comment> \<open>the double written 2.1\<close>
  "d2_1 = 4728779608739021 / 2251799813685248"

definition d24_05 :: real where
  \<comment> \<open>the double written 24.05\<close>
  "d24_05 = 6769473189891277 / 281474976710656"

definition d34_6125 :: real where
  \<comment> \<open>the double written 34.6125\<close>
  "d34_6125 = 2435638157849395 / 70368744177664"

definition d13_690000000000001 :: real where
  \<comment> \<open>the double written 13.690000000000001\<close>
  "d13_690000000000001 = 3853392431168881 / 281474976710656"

definition d48_302499999999995 :: real where
  \<comment> \<open>the double written 48.302499999999995\<close>
  "d48_302499999999995 = 3398986265641615 / 70368744177664"

definition d48_3025 :: real where
  \<comment> \<open>the double written 48.3025\<close>
  "d48_3025 = 6797972531283231 / 140737488355328"

definition d49_3025 :: real where
  \<comment> \<open>the double written 49.3025\<close>
  "d49_3025 = 6938710019638559 / 140737488355328"

definition d1_000000000000007 :: real where
  \<comment> \<open>the double written 1.000000000000007\<close>
  "d1_000000000000007 = 140737488355329 / 140737488355328"

definition d4_000000000000028 :: real where
  \<comment> \<open>the double written 4.000000000000028\<close>
  "d4_000000000000028 = 140737488355329 / 35184372088832"

definition d2_842170943040401em14 :: real where
  \<comment> \<open>the double written 2.842170943040401e-14\<close>
  "d2_842170943040401em14 = 1 / 35184372088832"

definition d7_4 :: real where
  \<comment> \<open>the double written 7.4\<close>
  "d7_4 = 4165829655317709 / 562949953421312"

definition d37_74 :: real where
  \<comment> \<open>the double written 37.74\<close>
  "d37_74 = 5311432810530079 / 140737488355328"

definition d4_41 :: real where
  \<comment> \<open>the double written 4.41\<close>
  "d4_41 = 1241304647293993 / 281474976710656"

definition d3_41 :: real where
  \<comment> \<open>the double written 3.41\<close>
  "d3_41 = 959829670583337 / 281474976710656"

definition d0_44 :: real where
  \<comment> \<open>the double written 0.44\<close>
  "d0_44 = 7926335344172073 / 18014398509481984"

definition d1_24 :: real where
  \<comment> \<open>the double written 1.24\<close>
  "d1_24 = 5584463537939415 / 4503599627370496"


text \<open>
  A grazing pair: circles of radius 3.25 and 3.7, the first passing the second at rest
  with the centres 6.95 apart at the closest point.
\<close>

definition grazing_a :: Body where
  "grazing_a = ball (- 1) d6_95 (13 / 4) 1 0 1"

definition grazing_b :: Body where
  "grazing_b = ball 0 0 d3_7 0 0 1"

text \<open>
  A closing pair: two circles of radius 0.5 with the centres 2.1 apart, moving toward
  each other along the line of centres with speeds 1 and 1.5. The gap between the
  surfaces is \<open>2.1 - 0.5 - 0.5\<close>, the closing speed \<open>1 + 1.5\<close>.
\<close>

definition closing_a :: Body where
  "closing_a = ball 0 0 (1 / 2) 1 0 1"

definition closing_b :: Body where
  "closing_b = ball d2_1 0 (1 / 2) (- (3 / 2)) 0 1"


section \<open>The time-of-impact solver\<close>

lemmas toc_defs = toc_a_def toc_b_def toc_c_def toc_delta_def toc_distance_def bounding_box_def

lemmas point_defs = Point_def point_add_def point_sub_def scalar_mult_def scalar_div_def

lemma ball_sel:
  "shape (ball cx cy r vx vy m) = \<lparr>center = Point cx cy, radius = r\<rparr>"
  "speed (ball cx cy r vx vy m) = Point vx vy"
  "mass (ball cx cy r vx vy m) = m"
  "is_static (ball cx cy r vx vy m) = False"
  "is_tangible (ball cx cy r vx vy m) = True"
  by (simp_all add: ball_def)

lemma sqrt_40000: "sqrt 40000 = 200"
  by (rule real_sqrt_unique) simp_all

lemma toc_a_zero_iff: "toc_a A B = 0 \<longleftrightarrow> speed A = speed B"
  by (auto simp: toc_a_def power2_eq_square[symmetric])

text \<open>
  With identical velocities the discriminant is zero, so the solver passes the test
  \<open>delta < 0\<close> and reaches the quotients, whose divisor and dividends are all zero.
\<close>

lemma toc_zero_dividend:
  "toc_a A B = 0 \<Longrightarrow>
     toc_delta A B = 0
     \<and> - toc_b A B - sqrt (toc_delta A B) = 0 \<and> - toc_b A B + sqrt (toc_delta A B) = 0"
  by (simp add: toc_a_zero_iff) (simp add: toc_defs)

lemma time_of_collision_same_speed: "speed A = speed B \<Longrightarrow> time_of_collision A B = NaN"
  by (simp add: time_of_collision_def toc_defs)

text \<open>
  C1: for two bodies with identical velocities the solver is claimed to be guarded and to
  return \<open>-1\<close> (or \<open>0\<close> when the bodies overlap). The code has no such guard: for two
  separate balls both moving with velocity \<open>(3, 4)\<close> it divides zero by zero and returns
  the resulting not-a-number, neither \<open>-1\<close> nor \<open>0\<close>.
\<close>

theorem time_of_collision_identical_velocities:
  "time_of_collision (ball 0 0 5 3 4 1) (ball 20 0 5 3 4 1) = NaN"
  by (simp add: time_of_collision_def toc_defs ball_def Point_def)




text \<open>
  Over the real numbers the solver is symmetric in its two arguments: every coefficient
  is unchanged when the bodies are exchanged.
\<close>

lemma time_of_collision_symmetric: "time_of_collision A B = time_of_collision B A"
proof -
  have a: "toc_a A B = toc_a B A" by (simp add: toc_a_def algebra_simps)
  have b: "toc_b A B = toc_b B A" by (simp add: toc_b_def algebra_simps)
  have c: "toc_c A B = toc_c B A" by (simp add: toc_c_def toc_distance_def algebra_simps)
  show ?thesis
    by (simp add: time_of_collision_def toc_t1_def toc_t2_def toc_delta_def a b c)
qed

section \<open>Rounding in the solver\<close>

subsection \<open>Rounding to the nearest double\<close>

text \<open>
  The double nearest to \<open>x\<close> is found from the binade of \<open>x\<close> and the integer nearest to
  the quotient of \<open>x\<close> by the spacing of the doubles there.
\<close>

lemma round_half_even_eqI:
  assumes "of_int m - 1 / 2 < x" "x < of_int m + 1 / 2"
  shows "round_half_even x = m"
proof (cases "of_int m \<le> x")
  case True
  with assms have f: "\<lfloor>x\<rfloor> = m" by (intro floor_unique) auto
  with assms show ?thesis by (simp add: round_half_even_def)
next
  case False
  with assms have f: "\<lfloor>x\<rfloor> = m - 1" by (intro floor_unique) auto
  with assms False show ?thesis by (simp add: round_half_even_def)
qed

lemma round_half_even_tie:
  "round_half_even (of_int k + 1 / 2) = (if even k then k else k + 1)"
proof -
  have "\<lfloor>of_int k + (1 / 2 :: real)\<rfloor> = k" by (intro floor_unique) auto
  then show ?thesis by (simp add: round_half_even_def)
qed

lemma round_half_even_minus: "round_half_even (- x) = - round_half_even x"
proof (cases "x = of_int \<lfloor>x\<rfloor>")
  case True
  then obtain k :: int where x: "x = of_int k" by blast
  have "- x = of_int (- k)" by (simp add: x)
  then have "\<lfloor>- x\<rfloor> = - k" by (simp only: floor_of_int)
  then show ?thesis by (simp add: round_half_even_def x)
next
  case False
  define f where "f = \<lfloor>x\<rfloor>"
  have "of_int f \<le> x" unfolding f_def by (rule of_int_floor_le)
  moreover from False have "x \<noteq> of_int f" unfolding f_def .
  ultimately have lo: "of_int f < x" by linarith
  have hi: "x < of_int f + 1" unfolding f_def by linarith
  have nf: "\<lfloor>- x\<rfloor> = - f - 1" using lo hi by (intro floor_unique) auto
  show ?thesis
    unfolding round_half_even_def nf f_def [symmetric]
    using lo hi by (auto simp: algebra_simps)
qed

lemma floor_log2_eqI:
  assumes "2 powr of_int e \<le> \<bar>x\<bar>" "\<bar>x\<bar> < 2 powr (of_int e + 1)"
  shows "\<lfloor>log 2 \<bar>x\<bar>\<rfloor> = e"
proof -
  have "(0::real) < 2 powr of_int e" by simp
  with assms(1) have pos: "0 < \<bar>x\<bar>" by linarith
  have 1: "of_int e \<le> log 2 \<bar>x\<bar>" using assms(1) pos by (simp add: le_log_iff)
  have 2: "log 2 \<bar>x\<bar> < of_int e + 1" using assms(2) pos by (simp add: log_less_iff)
  from 1 2 show ?thesis by (intro floor_unique) auto
qed

lemma f64_exponent_eqI:
  assumes "2 powr of_int e \<le> \<bar>x\<bar>" "\<bar>x\<bar> < 2 powr (of_int e + 1)" "- 1022 \<le> e"
  shows "f64_exponent x = e" and "x \<noteq> 0"
proof -
  show "f64_exponent x = e"
    unfolding f64_exponent_def floor_log2_eqI [OF assms(1,2)] using assms(3) by simp
  have "(0::real) < 2 powr of_int e" by simp
  with assms(1) show "x \<noteq> 0" by auto
qed

lemma f64_round_eqI:
  assumes "2 powr of_int e \<le> \<bar>x\<bar>" "\<bar>x\<bar> < 2 powr (of_int e + 1)" "- 1022 \<le> e"
    and "of_int m - 1 / 2 < x / 2 powr (of_int e - 52)"
    and "x / 2 powr (of_int e - 52) < of_int m + 1 / 2"
  shows "f64_round x = of_int m * 2 powr (of_int e - 52)"
  unfolding f64_round_def f64_ulp_def f64_exponent_eqI(1) [OF assms(1,2,3)]
  using f64_exponent_eqI(2) [OF assms(1,2,3)] round_half_even_eqI [OF assms(4,5)] by simp

lemma f64_round_tieI:
  assumes "2 powr of_int e \<le> \<bar>x\<bar>" "\<bar>x\<bar> < 2 powr (of_int e + 1)" "- 1022 \<le> e"
    and "x / 2 powr (of_int e - 52) = of_int k + 1 / 2"
    and "m = (if even k then k else k + 1)"
  shows "f64_round x = of_int m * 2 powr (of_int e - 52)"
  unfolding f64_round_def f64_ulp_def f64_exponent_eqI(1) [OF assms(1,2,3)] assms(4)
    round_half_even_tie
  using f64_exponent_eqI(2) [OF assms(1,2,3)] assms(5) by simp

lemma f64_round_minus: "f64_round (- x) = - f64_round x"
  by (simp add: f64_round_def f64_ulp_def f64_exponent_def round_half_even_minus)

lemma f64_round_zero: "f64_round 0 = 0"
  by (simp add: f64_round_def)

subsection \<open>Exchange of the two bodies\<close>

text \<open>
  Rounding commutes with negation, so a rounded difference changes sign when its operands
  are exchanged and a product of two differences does not change at all. The radius term
  is a sum of three different terms and has no such symmetry.
\<close>

lemma f64_sub_swap: "f64_sub y x = - f64_sub x y"
  using f64_round_minus [of "x - y"] by (simp add: f64_sub_def)

lemma f64_mul_minus: "f64_mul (- x) (- y) = f64_mul x y"
  by (simp add: f64_mul_def)

lemma f64_a_swap: "f64_a B A = f64_a A B"
  by (simp add: f64_a_def f64_sub_swap [of "px (speed B)"] f64_sub_swap [of "py (speed B)"]
      f64_mul_minus)

lemma f64_b_swap: "f64_b B A = f64_b A B"
  unfolding f64_b_def
  by (simp add: f64_sub_swap [of "px (speed B)"] f64_sub_swap [of "py (speed B)"]
      f64_sub_swap [of "px (center (bounding_box B))"]
      f64_sub_swap [of "py (center (bounding_box B))"] f64_mul_minus)

lemma f64_centres_swap: "f64_centres B A = f64_centres A B"
  unfolding f64_centres_def
  by (simp add: f64_sub_swap [of "px (center (bounding_box B))"]
      f64_sub_swap [of "py (center (bounding_box B))"] f64_mul_minus)

lemma f64_swap_same_distance:
  assumes "f64_distance B A = f64_distance A B"
  shows "time_of_collision_f64 B A = time_of_collision_f64 A B"
  by (simp add: time_of_collision_f64_def f64_t1_def f64_t2_def f64_delta_def f64_c_def
      f64_a_swap f64_b_swap f64_centres_swap assms)

lemma f64_distance_same_radius:
  "radius (bounding_box A) = radius (bounding_box B) \<Longrightarrow> f64_distance B A = f64_distance A B"
  by (simp add: f64_distance_def)

subsection \<open>Sample computations\<close>

text \<open>
  The solver traced on the sample pairs, one rounded operation at a time. Each step names
  the binade \<open>e\<close> of the exact result and the integer \<open>m\<close> with the double \<open>m * 2^(e - 52)\<close>
  nearest to it.
\<close>

lemma sample_values_are_doubles:
  "f64_round d3_7 = d3_7
   \<and> f64_round d6_95 = d6_95
   \<and> f64_round d2_1 = d2_1
   \<and> f64_round (13 / 4) = (13 / 4)
   \<and> f64_round (1 / 2) = (1 / 2)
   \<and> f64_round (3 / 2) = (3 / 2)
   \<and> f64_round 1 = 1
   \<and> f64_round 5 = 5
   \<and> f64_round 20 = 20"
proof -
  have r1: "f64_round d3_7 = d3_7"
    by (rule trans [OF f64_round_eqI [where e = "1" and m = "8331659310635418"]])
       (simp_all add: powr_neg_numeral d3_7_def)
  have r2: "f64_round d6_95 = d6_95"
    by (rule trans [OF f64_round_eqI [where e = "2" and m = "7825004352556237"]])
       (simp_all add: powr_neg_numeral d6_95_def)
  have r3: "f64_round d2_1 = d2_1"
    by (rule trans [OF f64_round_eqI [where e = "1" and m = "4728779608739021"]])
       (simp_all add: powr_neg_numeral d2_1_def)
  have r4: "f64_round (13 / 4) = (13 / 4)"
    by (rule trans [OF f64_round_eqI [where e = "1" and m = "7318349394477056"]])
       (simp_all add: powr_neg_numeral)
  have r5: "f64_round (1 / 2) = (1 / 2)"
    by (rule trans [OF f64_round_eqI [where e = "(- 1)" and m = "4503599627370496"]])
       (simp_all add: powr_neg_numeral)
  have r6: "f64_round (3 / 2) = (3 / 2)"
    by (rule trans [OF f64_round_eqI [where e = "0" and m = "6755399441055744"]])
       (simp_all add: powr_neg_numeral)
  have r7: "f64_round 1 = 1"
    by (rule trans [OF f64_round_eqI [where e = "0" and m = "4503599627370496"]])
       (simp_all add: powr_neg_numeral)
  have r8: "f64_round 5 = 5"
    by (rule trans [OF f64_round_eqI [where e = "2" and m = "5629499534213120"]])
       (simp_all add: powr_neg_numeral)
  have r9: "f64_round 20 = 20"
    by (rule trans [OF f64_round_eqI [where e = "4" and m = "5629499534213120"]])
       (simp_all add: powr_neg_numeral)
  show ?thesis
    by (simp only: r1 r2 r3 r4 r5 r6 r7 r8 r9 simp_thms)
qed

lemma grazing_ab_distance_eq: "f64_distance grazing_a grazing_b = d48_302499999999995"
proof -
  have s1: "f64_square (13 / 4) = (169 / 16)"
    unfolding f64_square_def
    by (rule trans [OF f64_round_eqI [where e = "3" and m = "5946158883012608"]])
       (simp_all add: powr_neg_numeral)
  have s2: "f64_mul 2 (13 / 4) = (13 / 2)"
    unfolding f64_mul_def
    by (rule trans [OF f64_round_eqI [where e = "2" and m = "7318349394477056"]])
       (simp_all add: powr_neg_numeral)
  have s3: "f64_mul (13 / 2) d3_7 = d24_05"
    unfolding f64_mul_def
    by (rule trans [OF f64_round_eqI [where e = "4" and m = "6769473189891277"]])
       (simp_all add: powr_neg_numeral d24_05_def d3_7_def)
  have s4: "f64_add (169 / 16) d24_05 = d34_6125"
    unfolding f64_add_def
    by (rule trans [OF f64_round_tieI [where e = "5" and m = "4871276315698790" and k = "4871276315698790"]])
       (simp_all add: powr_neg_numeral d24_05_def d34_6125_def)
  have s5: "f64_square d3_7 = d13_690000000000001"
    unfolding f64_square_def
    by (rule trans [OF f64_round_eqI [where e = "3" and m = "7706784862337762"]])
       (simp_all add: powr_neg_numeral d13_690000000000001_def d3_7_def)
  have s6: "f64_add d34_6125 d13_690000000000001 = d48_302499999999995"
    unfolding f64_add_def
    by (rule trans [OF f64_round_tieI [where e = "5" and m = "6797972531283230" and k = "6797972531283230"]])
       (simp_all add: powr_neg_numeral d13_690000000000001_def d34_6125_def d48_302499999999995_def)
  show ?thesis
    by (simp add: f64_distance_def grazing_a_def grazing_b_def bounding_box_def ball_sel Point_def s1 s2 s3 s4 s5 s6)
qed

lemma grazing_ab_a_eq: "f64_a grazing_a grazing_b = 1"
proof -
  have s1: "f64_sub 1 0 = 1"
    unfolding f64_sub_def
    by (rule trans [OF f64_round_eqI [where e = "0" and m = "4503599627370496"]])
       (simp_all add: powr_neg_numeral)
  have s2: "f64_sub 0 0 = 0"
    by (simp add: f64_sub_def f64_round_zero)
  have s3: "f64_mul 1 1 = 1"
    unfolding f64_mul_def
    by (rule trans [OF f64_round_eqI [where e = "0" and m = "4503599627370496"]])
       (simp_all add: powr_neg_numeral)
  have s4: "f64_mul 0 0 = 0"
    by (simp add: f64_mul_def f64_round_zero)
  have s5: "f64_add 1 0 = 1"
    unfolding f64_add_def
    by (rule trans [OF f64_round_eqI [where e = "0" and m = "4503599627370496"]])
       (simp_all add: powr_neg_numeral)
  show ?thesis
    by (simp add: f64_a_def grazing_a_def grazing_b_def bounding_box_def ball_sel Point_def s1 s2 s3 s4 s5)
qed

lemma grazing_ab_b_eq: "f64_b grazing_a grazing_b = (- 2)"
proof -
  have s1: "f64_sub 1 0 = 1"
    unfolding f64_sub_def
    by (rule trans [OF f64_round_eqI [where e = "0" and m = "4503599627370496"]])
       (simp_all add: powr_neg_numeral)
  have s2: "f64_sub 0 0 = 0"
    by (simp add: f64_sub_def f64_round_zero)
  have s3: "f64_sub (- 1) 0 = (- 1)"
    unfolding f64_sub_def
    by (rule trans [OF f64_round_eqI [where e = "0" and m = "(- 4503599627370496)"]])
       (simp_all add: powr_neg_numeral)
  have s4: "f64_sub d6_95 0 = d6_95"
    unfolding f64_sub_def
    by (rule trans [OF f64_round_eqI [where e = "2" and m = "7825004352556237"]])
       (simp_all add: powr_neg_numeral d6_95_def)
  have s5: "f64_mul (- 1) 1 = (- 1)"
    unfolding f64_mul_def
    by (rule trans [OF f64_round_eqI [where e = "0" and m = "(- 4503599627370496)"]])
       (simp_all add: powr_neg_numeral)
  have s6: "f64_mul d6_95 0 = 0"
    by (simp add: f64_mul_def f64_round_zero d6_95_def)
  have s7: "f64_add (- 1) 0 = (- 1)"
    unfolding f64_add_def
    by (rule trans [OF f64_round_eqI [where e = "0" and m = "(- 4503599627370496)"]])
       (simp_all add: powr_neg_numeral)
  have s8: "f64_mul 2 (- 1) = (- 2)"
    unfolding f64_mul_def
    by (rule trans [OF f64_round_eqI [where e = "1" and m = "(- 4503599627370496)"]])
       (simp_all add: powr_neg_numeral)
  show ?thesis
    by (simp add: f64_b_def grazing_a_def grazing_b_def bounding_box_def ball_sel Point_def s1 s2 s3 s4 s5 s6 s7 s8)
qed

lemma grazing_ab_centres_eq: "f64_centres grazing_a grazing_b = d49_3025"
proof -
  have s1: "f64_sub (- 1) 0 = (- 1)"
    unfolding f64_sub_def
    by (rule trans [OF f64_round_eqI [where e = "0" and m = "(- 4503599627370496)"]])
       (simp_all add: powr_neg_numeral)
  have s2: "f64_sub d6_95 0 = d6_95"
    unfolding f64_sub_def
    by (rule trans [OF f64_round_eqI [where e = "2" and m = "7825004352556237"]])
       (simp_all add: powr_neg_numeral d6_95_def)
  have s3: "f64_mul (- 1) (- 1) = 1"
    unfolding f64_mul_def
    by (rule trans [OF f64_round_eqI [where e = "0" and m = "4503599627370496"]])
       (simp_all add: powr_neg_numeral)
  have s4: "f64_mul d6_95 d6_95 = d48_3025"
    unfolding f64_mul_def
    by (rule trans [OF f64_round_eqI [where e = "5" and m = "6797972531283231"]])
       (simp_all add: powr_neg_numeral d48_3025_def d6_95_def)
  have s5: "f64_add 1 d48_3025 = d49_3025"
    unfolding f64_add_def
    by (rule trans [OF f64_round_eqI [where e = "5" and m = "6938710019638559"]])
       (simp_all add: powr_neg_numeral d48_3025_def d49_3025_def)
  show ?thesis
    by (simp add: f64_centres_def grazing_a_def grazing_b_def bounding_box_def ball_sel Point_def s1 s2 s3 s4 s5)
qed

lemma grazing_ab_c_eq: "f64_c grazing_a grazing_b = d1_000000000000007"
proof -
  have s1: "f64_sub d49_3025 d48_302499999999995 = d1_000000000000007"
    unfolding f64_sub_def
    by (rule trans [OF f64_round_eqI [where e = "0" and m = "4503599627370528"]])
       (simp_all add: powr_neg_numeral d1_000000000000007_def d48_302499999999995_def d49_3025_def)
  show ?thesis
    by (simp add: f64_c_def grazing_ab_centres_eq grazing_ab_distance_eq s1)
qed

lemma grazing_ab_delta_eq: "f64_delta grazing_a grazing_b = (- d2_842170943040401em14)"
proof -
  have s1: "f64_square (- 2) = 4"
    unfolding f64_square_def
    by (rule trans [OF f64_round_eqI [where e = "2" and m = "4503599627370496"]])
       (simp_all add: powr_neg_numeral)
  have s2: "f64_mul 4 1 = 4"
    unfolding f64_mul_def
    by (rule trans [OF f64_round_eqI [where e = "2" and m = "4503599627370496"]])
       (simp_all add: powr_neg_numeral)
  have s3: "f64_mul 4 d1_000000000000007 = d4_000000000000028"
    unfolding f64_mul_def
    by (rule trans [OF f64_round_eqI [where e = "2" and m = "4503599627370528"]])
       (simp_all add: powr_neg_numeral d1_000000000000007_def d4_000000000000028_def)
  have s4: "f64_sub 4 d4_000000000000028 = (- d2_842170943040401em14)"
    unfolding f64_sub_def
    by (rule trans [OF f64_round_eqI [where e = "(- 45)" and m = "(- 4503599627370496)"]])
       (simp_all add: powr_neg_numeral d2_842170943040401em14_def d4_000000000000028_def)
  show ?thesis
    by (simp add: f64_delta_def grazing_ab_a_eq grazing_ab_b_eq grazing_ab_c_eq s1 s2 s3 s4)
qed

lemma grazing_ba_distance_eq: "f64_distance grazing_b grazing_a = d48_3025"
proof -
  have s1: "f64_square d3_7 = d13_690000000000001"
    unfolding f64_square_def
    by (rule trans [OF f64_round_eqI [where e = "3" and m = "7706784862337762"]])
       (simp_all add: powr_neg_numeral d13_690000000000001_def d3_7_def)
  have s2: "f64_mul 2 d3_7 = d7_4"
    unfolding f64_mul_def
    by (rule trans [OF f64_round_eqI [where e = "2" and m = "8331659310635418"]])
       (simp_all add: powr_neg_numeral d3_7_def d7_4_def)
  have s3: "f64_mul d7_4 (13 / 4) = d24_05"
    unfolding f64_mul_def
    by (rule trans [OF f64_round_eqI [where e = "4" and m = "6769473189891277"]])
       (simp_all add: powr_neg_numeral d24_05_def d7_4_def)
  have s4: "f64_add d13_690000000000001 d24_05 = d37_74"
    unfolding f64_add_def
    by (rule trans [OF f64_round_eqI [where e = "5" and m = "5311432810530079"]])
       (simp_all add: powr_neg_numeral d13_690000000000001_def d24_05_def d37_74_def)
  have s5: "f64_square (13 / 4) = (169 / 16)"
    unfolding f64_square_def
    by (rule trans [OF f64_round_eqI [where e = "3" and m = "5946158883012608"]])
       (simp_all add: powr_neg_numeral)
  have s6: "f64_add d37_74 (169 / 16) = d48_3025"
    unfolding f64_add_def
    by (rule trans [OF f64_round_eqI [where e = "5" and m = "6797972531283231"]])
       (simp_all add: powr_neg_numeral d37_74_def d48_3025_def)
  show ?thesis
    by (simp add: f64_distance_def grazing_a_def grazing_b_def bounding_box_def ball_sel Point_def s1 s2 s3 s4 s5 s6)
qed

lemma grazing_ba_a_eq: "f64_a grazing_b grazing_a = 1"
proof -
  have s1: "f64_sub 0 1 = (- 1)"
    unfolding f64_sub_def
    by (rule trans [OF f64_round_eqI [where e = "0" and m = "(- 4503599627370496)"]])
       (simp_all add: powr_neg_numeral)
  have s2: "f64_sub 0 0 = 0"
    by (simp add: f64_sub_def f64_round_zero)
  have s3: "f64_mul (- 1) (- 1) = 1"
    unfolding f64_mul_def
    by (rule trans [OF f64_round_eqI [where e = "0" and m = "4503599627370496"]])
       (simp_all add: powr_neg_numeral)
  have s4: "f64_mul 0 0 = 0"
    by (simp add: f64_mul_def f64_round_zero)
  have s5: "f64_add 1 0 = 1"
    unfolding f64_add_def
    by (rule trans [OF f64_round_eqI [where e = "0" and m = "4503599627370496"]])
       (simp_all add: powr_neg_numeral)
  show ?thesis
    by (simp add: f64_a_def grazing_a_def grazing_b_def bounding_box_def ball_sel Point_def s1 s2 s3 s4 s5)
qed

lemma grazing_ba_b_eq: "f64_b grazing_b grazing_a = (- 2)"
proof -
  have s1: "f64_sub 0 1 = (- 1)"
    unfolding f64_sub_def
    by (rule trans [OF f64_round_eqI [where e = "0" and m = "(- 4503599627370496)"]])
       (simp_all add: powr_neg_numeral)
  have s2: "f64_sub 0 0 = 0"
    by (simp add: f64_sub_def f64_round_zero)
  have s3: "f64_sub 0 (- 1) = 1"
    unfolding f64_sub_def
    by (rule trans [OF f64_round_eqI [where e = "0" and m = "4503599627370496"]])
       (simp_all add: powr_neg_numeral)
  have s4: "f64_sub 0 d6_95 = (- d6_95)"
    unfolding f64_sub_def
    by (rule trans [OF f64_round_eqI [where e = "2" and m = "(- 7825004352556237)"]])
       (simp_all add: powr_neg_numeral d6_95_def)
  have s5: "f64_mul 1 (- 1) = (- 1)"
    unfolding f64_mul_def
    by (rule trans [OF f64_round_eqI [where e = "0" and m = "(- 4503599627370496)"]])
       (simp_all add: powr_neg_numeral)
  have s6: "f64_mul (- d6_95) 0 = 0"
    by (simp add: f64_mul_def f64_round_zero d6_95_def)
  have s7: "f64_add (- 1) 0 = (- 1)"
    unfolding f64_add_def
    by (rule trans [OF f64_round_eqI [where e = "0" and m = "(- 4503599627370496)"]])
       (simp_all add: powr_neg_numeral)
  have s8: "f64_mul 2 (- 1) = (- 2)"
    unfolding f64_mul_def
    by (rule trans [OF f64_round_eqI [where e = "1" and m = "(- 4503599627370496)"]])
       (simp_all add: powr_neg_numeral)
  show ?thesis
    by (simp add: f64_b_def grazing_a_def grazing_b_def bounding_box_def ball_sel Point_def s1 s2 s3 s4 s5 s6 s7 s8)
qed

lemma grazing_ba_centres_eq: "f64_centres grazing_b grazing_a = d49_3025"
proof -
  have s1: "f64_sub 0 (- 1) = 1"
    unfolding f64_sub_def
    by (rule trans [OF f64_round_eqI [where e = "0" and m = "4503599627370496"]])
       (simp_all add: powr_neg_numeral)
  have s2: "f64_sub 0 d6_95 = (- d6_95)"
    unfolding f64_sub_def
    by (rule trans [OF f64_round_eqI [where e = "2" and m = "(- 7825004352556237)"]])
       (simp_all add: powr_neg_numeral d6_95_def)
  have s3: "f64_mul 1 1 = 1"
    unfolding f64_mul_def
    by (rule trans [OF f64_round_eqI [where e = "0" and m = "4503599627370496"]])
       (simp_all add: powr_neg_numeral)
  have s4: "f64_mul (- d6_95) (- d6_95) = d48_3025"
    unfolding f64_mul_def
    by (rule trans [OF f64_round_eqI [where e = "5" and m = "6797972531283231"]])
       (simp_all add: powr_neg_numeral d48_3025_def d6_95_def)
  have s5: "f64_add 1 d48_3025 = d49_3025"
    unfolding f64_add_def
    by (rule trans [OF f64_round_eqI [where e = "5" and m = "6938710019638559"]])
       (simp_all add: powr_neg_numeral d48_3025_def d49_3025_def)
  show ?thesis
    by (simp add: f64_centres_def grazing_a_def grazing_b_def bounding_box_def ball_sel Point_def s1 s2 s3 s4 s5)
qed

lemma grazing_ba_c_eq: "f64_c grazing_b grazing_a = 1"
proof -
  have s1: "f64_sub d49_3025 d48_3025 = 1"
    unfolding f64_sub_def
    by (rule trans [OF f64_round_eqI [where e = "0" and m = "4503599627370496"]])
       (simp_all add: powr_neg_numeral d48_3025_def d49_3025_def)
  show ?thesis
    by (simp add: f64_c_def grazing_ba_centres_eq grazing_ba_distance_eq s1)
qed

lemma grazing_ba_delta_eq: "f64_delta grazing_b grazing_a = 0"
proof -
  have s1: "f64_square (- 2) = 4"
    unfolding f64_square_def
    by (rule trans [OF f64_round_eqI [where e = "2" and m = "4503599627370496"]])
       (simp_all add: powr_neg_numeral)
  have s2: "f64_mul 4 1 = 4"
    unfolding f64_mul_def
    by (rule trans [OF f64_round_eqI [where e = "2" and m = "4503599627370496"]])
       (simp_all add: powr_neg_numeral)
  have s3: "f64_sub 4 4 = 0"
    by (simp add: f64_sub_def f64_round_zero)
  show ?thesis
    by (simp add: f64_delta_def grazing_ba_a_eq grazing_ba_b_eq grazing_ba_c_eq s1 s2 s3)
qed

lemma grazing_ba_t1_eq: "f64_t1 grazing_b grazing_a = Double 1"
proof -
  have s1: "f64_sqrt 0 = 0"
    by (simp add: f64_sqrt_def f64_round_zero)
  have s2: "f64_sub 2 0 = 2"
    unfolding f64_sub_def
    by (rule trans [OF f64_round_eqI [where e = "1" and m = "4503599627370496"]])
       (simp_all add: powr_neg_numeral)
  have s3: "f64_mul 2 1 = 2"
    unfolding f64_mul_def
    by (rule trans [OF f64_round_eqI [where e = "1" and m = "4503599627370496"]])
       (simp_all add: powr_neg_numeral)
  have s4: "f64_round (2 / 2) = 1"
    by (rule trans [OF f64_round_eqI [where e = "0" and m = "4503599627370496"]])
       (simp_all add: powr_neg_numeral)
  have s5: "f64_div 2 2 = Double 1"
    unfolding f64_div_def s4 by (simp add:)
  show ?thesis
    by (simp add: f64_t1_def grazing_ba_a_eq grazing_ba_b_eq grazing_ba_delta_eq s1 s2 s3 s4 s5)
qed

lemma grazing_ba_t2_eq: "f64_t2 grazing_b grazing_a = Double 1"
proof -
  have s1: "f64_sqrt 0 = 0"
    by (simp add: f64_sqrt_def f64_round_zero)
  have s2: "f64_add 2 0 = 2"
    unfolding f64_add_def
    by (rule trans [OF f64_round_eqI [where e = "1" and m = "4503599627370496"]])
       (simp_all add: powr_neg_numeral)
  have s3: "f64_mul 2 1 = 2"
    unfolding f64_mul_def
    by (rule trans [OF f64_round_eqI [where e = "1" and m = "4503599627370496"]])
       (simp_all add: powr_neg_numeral)
  have s4: "f64_round (2 / 2) = 1"
    by (rule trans [OF f64_round_eqI [where e = "0" and m = "4503599627370496"]])
       (simp_all add: powr_neg_numeral)
  have s5: "f64_div 2 2 = Double 1"
    unfolding f64_div_def s4 by (simp add:)
  show ?thesis
    by (simp add: f64_t2_def grazing_ba_a_eq grazing_ba_b_eq grazing_ba_delta_eq s1 s2 s3 s4 s5)
qed

lemma closing_distance_eq: "f64_distance closing_a closing_b = 1"
proof -
  have s1: "f64_square (1 / 2) = (1 / 4)"
    unfolding f64_square_def
    by (rule trans [OF f64_round_eqI [where e = "(- 2)" and m = "4503599627370496"]])
       (simp_all add: powr_neg_numeral)
  have s2: "f64_mul 2 (1 / 2) = 1"
    unfolding f64_mul_def
    by (rule trans [OF f64_round_eqI [where e = "0" and m = "4503599627370496"]])
       (simp_all add: powr_neg_numeral)
  have s3: "f64_mul 1 (1 / 2) = (1 / 2)"
    unfolding f64_mul_def
    by (rule trans [OF f64_round_eqI [where e = "(- 1)" and m = "4503599627370496"]])
       (simp_all add: powr_neg_numeral)
  have s4: "f64_add (1 / 4) (1 / 2) = (3 / 4)"
    unfolding f64_add_def
    by (rule trans [OF f64_round_eqI [where e = "(- 1)" and m = "6755399441055744"]])
       (simp_all add: powr_neg_numeral)
  have s5: "f64_add (3 / 4) (1 / 4) = 1"
    unfolding f64_add_def
    by (rule trans [OF f64_round_eqI [where e = "0" and m = "4503599627370496"]])
       (simp_all add: powr_neg_numeral)
  show ?thesis
    by (simp add: f64_distance_def closing_a_def closing_b_def bounding_box_def ball_sel Point_def s1 s2 s3 s4 s5)
qed

lemma closing_a_eq: "f64_a closing_a closing_b = (25 / 4)"
proof -
  have s1: "f64_sub 1 (- (3 / 2)) = (5 / 2)"
    unfolding f64_sub_def
    by (rule trans [OF f64_round_eqI [where e = "1" and m = "5629499534213120"]])
       (simp_all add: powr_neg_numeral)
  have s2: "f64_sub 0 0 = 0"
    by (simp add: f64_sub_def f64_round_zero)
  have s3: "f64_mul (5 / 2) (5 / 2) = (25 / 4)"
    unfolding f64_mul_def
    by (rule trans [OF f64_round_eqI [where e = "2" and m = "7036874417766400"]])
       (simp_all add: powr_neg_numeral)
  have s4: "f64_mul 0 0 = 0"
    by (simp add: f64_mul_def f64_round_zero)
  have s5: "f64_add (25 / 4) 0 = (25 / 4)"
    unfolding f64_add_def
    by (rule trans [OF f64_round_eqI [where e = "2" and m = "7036874417766400"]])
       (simp_all add: powr_neg_numeral)
  show ?thesis
    by (simp add: f64_a_def closing_a_def closing_b_def bounding_box_def ball_sel Point_def s1 s2 s3 s4 s5)
qed

lemma closing_b_eq: "f64_b closing_a closing_b = (- (21 / 2))"
proof -
  have s1: "f64_sub 1 (- (3 / 2)) = (5 / 2)"
    unfolding f64_sub_def
    by (rule trans [OF f64_round_eqI [where e = "1" and m = "5629499534213120"]])
       (simp_all add: powr_neg_numeral)
  have s2: "f64_sub 0 0 = 0"
    by (simp add: f64_sub_def f64_round_zero)
  have s3: "f64_sub 0 d2_1 = (- d2_1)"
    unfolding f64_sub_def
    by (rule trans [OF f64_round_eqI [where e = "1" and m = "(- 4728779608739021)"]])
       (simp_all add: powr_neg_numeral d2_1_def)
  have s4: "f64_mul (- d2_1) (5 / 2) = (- (21 / 4))"
    unfolding f64_mul_def
    by (rule trans [OF f64_round_eqI [where e = "2" and m = "(- 5910974510923776)"]])
       (simp_all add: powr_neg_numeral d2_1_def)
  have s5: "f64_mul 0 0 = 0"
    by (simp add: f64_mul_def f64_round_zero)
  have s6: "f64_add (- (21 / 4)) 0 = (- (21 / 4))"
    unfolding f64_add_def
    by (rule trans [OF f64_round_eqI [where e = "2" and m = "(- 5910974510923776)"]])
       (simp_all add: powr_neg_numeral)
  have s7: "f64_mul 2 (- (21 / 4)) = (- (21 / 2))"
    unfolding f64_mul_def
    by (rule trans [OF f64_round_eqI [where e = "3" and m = "(- 5910974510923776)"]])
       (simp_all add: powr_neg_numeral)
  show ?thesis
    by (simp add: f64_b_def closing_a_def closing_b_def bounding_box_def ball_sel Point_def s1 s2 s3 s4 s5 s6 s7)
qed

lemma closing_centres_eq: "f64_centres closing_a closing_b = d4_41"
proof -
  have s1: "f64_sub 0 d2_1 = (- d2_1)"
    unfolding f64_sub_def
    by (rule trans [OF f64_round_eqI [where e = "1" and m = "(- 4728779608739021)"]])
       (simp_all add: powr_neg_numeral d2_1_def)
  have s2: "f64_sub 0 0 = 0"
    by (simp add: f64_sub_def f64_round_zero)
  have s3: "f64_mul (- d2_1) (- d2_1) = d4_41"
    unfolding f64_mul_def
    by (rule trans [OF f64_round_eqI [where e = "2" and m = "4965218589175972"]])
       (simp_all add: powr_neg_numeral d2_1_def d4_41_def)
  have s4: "f64_mul 0 0 = 0"
    by (simp add: f64_mul_def f64_round_zero)
  have s5: "f64_add d4_41 0 = d4_41"
    unfolding f64_add_def
    by (rule trans [OF f64_round_eqI [where e = "2" and m = "4965218589175972"]])
       (simp_all add: powr_neg_numeral d4_41_def)
  show ?thesis
    by (simp add: f64_centres_def closing_a_def closing_b_def bounding_box_def ball_sel Point_def s1 s2 s3 s4 s5)
qed

lemma closing_c_eq: "f64_c closing_a closing_b = d3_41"
proof -
  have s1: "f64_sub d4_41 1 = d3_41"
    unfolding f64_sub_def
    by (rule trans [OF f64_round_eqI [where e = "1" and m = "7678637364666696"]])
       (simp_all add: powr_neg_numeral d3_41_def d4_41_def)
  show ?thesis
    by (simp add: f64_c_def closing_centres_eq closing_distance_eq s1)
qed

lemma closing_delta_eq: "f64_delta closing_a closing_b = 25"
proof -
  have s1: "f64_square (- (21 / 2)) = (441 / 4)"
    unfolding f64_square_def
    by (rule trans [OF f64_round_eqI [where e = "6" and m = "7758154045587456"]])
       (simp_all add: powr_neg_numeral)
  have s2: "f64_mul 4 (25 / 4) = 25"
    unfolding f64_mul_def
    by (rule trans [OF f64_round_eqI [where e = "4" and m = "7036874417766400"]])
       (simp_all add: powr_neg_numeral)
  have s3: "f64_mul 25 d3_41 = (341 / 4)"
    unfolding f64_mul_def
    by (rule trans [OF f64_round_eqI [where e = "6" and m = "5998935441145856"]])
       (simp_all add: powr_neg_numeral d3_41_def)
  have s4: "f64_sub (441 / 4) (341 / 4) = 25"
    unfolding f64_sub_def
    by (rule trans [OF f64_round_eqI [where e = "4" and m = "7036874417766400"]])
       (simp_all add: powr_neg_numeral)
  show ?thesis
    by (simp add: f64_delta_def closing_a_eq closing_b_eq closing_c_eq s1 s2 s3 s4)
qed

lemma closing_t1_eq: "f64_t1 closing_a closing_b = Double d0_44"
proof -
  have s1: "f64_sqrt 25 = 5"
    unfolding f64_sqrt_def real_sqrt_unique [of 5 25, simplified]
    by (rule trans [OF f64_round_eqI [where e = "2" and m = "5629499534213120"]])
       (simp_all add: powr_neg_numeral)
  have s2: "f64_sub (21 / 2) 5 = (11 / 2)"
    unfolding f64_sub_def
    by (rule trans [OF f64_round_eqI [where e = "2" and m = "6192449487634432"]])
       (simp_all add: powr_neg_numeral)
  have s3: "f64_mul 2 (25 / 4) = (25 / 2)"
    unfolding f64_mul_def
    by (rule trans [OF f64_round_eqI [where e = "3" and m = "7036874417766400"]])
       (simp_all add: powr_neg_numeral)
  have s4: "f64_round ((11 / 2) / (25 / 2)) = d0_44"
    by (rule trans [OF f64_round_eqI [where e = "(- 2)" and m = "7926335344172073"]])
       (simp_all add: powr_neg_numeral d0_44_def)
  have s5: "f64_div (11 / 2) (25 / 2) = Double d0_44"
    unfolding f64_div_def s4 by (simp add: d0_44_def)
  show ?thesis
    by (simp add: f64_t1_def closing_a_eq closing_b_eq closing_delta_eq s1 s2 s3 s4 s5)
qed

lemma closing_t2_eq: "f64_t2 closing_a closing_b = Double d1_24"
proof -
  have s1: "f64_sqrt 25 = 5"
    unfolding f64_sqrt_def real_sqrt_unique [of 5 25, simplified]
    by (rule trans [OF f64_round_eqI [where e = "2" and m = "5629499534213120"]])
       (simp_all add: powr_neg_numeral)
  have s2: "f64_add (21 / 2) 5 = (31 / 2)"
    unfolding f64_add_def
    by (rule trans [OF f64_round_eqI [where e = "3" and m = "8725724278030336"]])
       (simp_all add: powr_neg_numeral)
  have s3: "f64_mul 2 (25 / 4) = (25 / 2)"
    unfolding f64_mul_def
    by (rule trans [OF f64_round_eqI [where e = "3" and m = "7036874417766400"]])
       (simp_all add: powr_neg_numeral)
  have s4: "f64_round ((31 / 2) / (25 / 2)) = d1_24"
    by (rule trans [OF f64_round_eqI [where e = "0" and m = "5584463537939415"]])
       (simp_all add: powr_neg_numeral d1_24_def)
  have s5: "f64_div (31 / 2) (25 / 2) = Double d1_24"
    unfolding f64_div_def s4 by (simp add: d1_24_def)
  show ?thesis
    by (simp add: f64_t2_def closing_a_eq closing_b_eq closing_delta_eq s1 s2 s3 s4 s5)
qed









text \<open>The results of the solver on the sample pairs.\<close>

lemma grazing_ab_result: "time_of_collision_f64 grazing_a grazing_b = Double (- 1)"
proof -
  have "- d2_842170943040401em14 < 0" by (simp add: d2_842170943040401em14_def)
  then show ?thesis by (simp add: time_of_collision_f64_def grazing_ab_delta_eq)
qed

lemma grazing_ba_result: "time_of_collision_f64 grazing_b grazing_a = Double 1"
  by (simp add: time_of_collision_f64_def grazing_ba_delta_eq grazing_ba_t1_eq grazing_ba_t2_eq
      below_zero_def)

lemma closing_result: "time_of_collision_f64 closing_a closing_b = Double d0_44"
proof -
  have "\<not> below_zero (Double d0_44)" by (simp add: below_zero_def d0_44_def)
  then show ?thesis
    by (simp add: time_of_collision_f64_def closing_delta_eq closing_t1_eq closing_t2_eq)
qed






text \<open>
  In exact arithmetic the grazing pair touches at time 1, in either order: the centres
  are exactly the sum of the radii apart at the closest point.
\<close>

lemma grazing_exact:
  "time_of_collision grazing_a grazing_b = Finite 1"
  "time_of_collision grazing_b grazing_a = Finite 1"
  by (simp_all add: time_of_collision_def toc_t1_def toc_t2_def toc_defs grazing_a_def
      grazing_b_def ball_sel Point_def d6_95_def d3_7_def power2_eq_square)

subsection \<open>The order of the two bodies\<close>

text \<open>
  C10, counterexample: the solver is claimed to return the same value for \<open>(A, B)\<close> and
  for \<open>(B, A)\<close>. For the grazing pair the radius term \<open>ra**2 + 2 * ra * rb + rb**2\<close> rounds
  to 48.302499999999995 in one order and to 48.3025 in the other, the discriminant is
  negative in the first and zero in the second, and the solver returns \<open>-1\<close> (no contact)
  for \<open>(A, B)\<close> and \<open>1\<close> (contact within the tick) for \<open>(B, A)\<close>.
\<close>

theorem time_of_collision_f64_order:
  "f64_distance grazing_a grazing_b = d48_302499999999995
   \<and> f64_distance grazing_b grazing_a = d48_3025
   \<and> d48_302499999999995 < d48_3025
   \<and> f64_delta grazing_a grazing_b < 0
   \<and> f64_delta grazing_b grazing_a = 0
   \<and> time_of_collision_f64 grazing_a grazing_b = Double (- 1)
   \<and> time_of_collision_f64 grazing_b grazing_a = Double 1"
proof -
  have 1: "d48_302499999999995 < d48_3025"
    by (simp add: d48_302499999999995_def d48_3025_def)
  have 2: "f64_delta grazing_a grazing_b < 0"
    by (simp add: grazing_ab_delta_eq d2_842170943040401em14_def)
  from 1 2 show ?thesis
    by (simp only: grazing_ab_distance_eq grazing_ba_distance_eq grazing_ba_delta_eq
        grazing_ab_result grazing_ba_result simp_thms)
qed

text \<open>
  C10, amended: exchanging the two bodies leaves the coefficients \<open>a\<close> and \<open>b\<close> and the
  squared distance of the centres unchanged, in binary64 as in exact arithmetic. The
  solver therefore returns the same value in both orders whenever the radius term
  \<open>ra**2 + 2 * ra * rb + rb**2\<close> rounds to the same double in both orders, in particular
  for equal radii; in exact arithmetic it always does.
\<close>

theorem time_of_collision_f64_exchange:
  "f64_a B A = f64_a A B \<and> f64_b B A = f64_b A B \<and> f64_centres B A = f64_centres A B
   \<and> (f64_distance B A = f64_distance A B
        \<longrightarrow> time_of_collision_f64 B A = time_of_collision_f64 A B)
   \<and> (radius (bounding_box A) = radius (bounding_box B)
        \<longrightarrow> time_of_collision_f64 B A = time_of_collision_f64 A B)
   \<and> time_of_collision B A = time_of_collision A B"
  using f64_swap_same_distance [of B A] f64_distance_same_radius [of A B]
    time_of_collision_symmetric [of B A]
  by (simp add: f64_a_swap f64_b_swap f64_centres_swap)

text \<open>
  The exchange theorem at the closing pair, whose radii are equal: the solver returns
  0.44 in both orders.
\<close>

theorem time_of_collision_f64_exchange_witness:
  "radius (bounding_box closing_a) = radius (bounding_box closing_b)
   \<and> f64_distance closing_b closing_a = f64_distance closing_a closing_b
   \<and> time_of_collision_f64 closing_a closing_b = Double d0_44
   \<and> time_of_collision_f64 closing_b closing_a = Double d0_44"
proof -
  have r: "radius (bounding_box closing_a) = radius (bounding_box closing_b)"
    by (simp add: closing_a_def closing_b_def bounding_box_def ball_sel)
  have d: "f64_distance closing_b closing_a = f64_distance closing_a closing_b"
    by (simp add: f64_distance_def r)
  from time_of_collision_f64_exchange [of closing_b closing_a] r
  have "time_of_collision_f64 closing_b closing_a = time_of_collision_f64 closing_a closing_b"
    by blast
  with r d show ?thesis by (simp add: closing_result)
qed

subsection \<open>The cases of the solver and the head-on time\<close>






section \<open>The swept-body builder\<close>

text \<open>
  C8: for a body whose bounding circle has radius \<open>r\<close> and centre \<open>s\<close>, and a predicted
  end position \<open>e\<close>, the swept proxy is the rectangle with top \<open>s.y + r\<close>, left \<open>s.x - r\<close>,
  bottom \<open>e.y - r\<close> and right \<open>e.x + r\<close>.
\<close>

theorem calculate_sweept_body_rectangle:
  "sweept_shape (calculate_sweept_body fresh body e) =
     \<lparr>top_left = \<lparr>px = px (center (bounding_box body)) - radius (bounding_box body),
                   py = py (center (bounding_box body)) + radius (bounding_box body)\<rparr>,
      bottom_right = \<lparr>px = px e + radius (bounding_box body),
                       py = py e - radius (bounding_box body)\<rparr>\<rparr>"
  by (simp add: calculate_sweept_body_def Point_def point_center_def Let_def)

section \<open>The velocity exchange\<close>





section \<open>The sample tick\<close>

lemmas body_defs = ball_def position_def predict_position_def bounding_box_def center_to_def
  body_update_def point_center_def

lemma toc_two_balls:
  "time_of_collision (ball 0 0 5 8 0 1) (ball 20 0 5 (- 2) 0 1) = Finite 1"
  "time_of_collision (ball 20 0 5 (- 2) 0 1) (ball 0 0 5 8 0 1) = Finite 1"
  by (simp_all add: time_of_collision_def toc_t1_def toc_t2_def toc_defs ball_sel Point_def
      sqrt_40000)

lemma two_balls_predict: "predict_all 2 (reset two_balls) = two_balls_predicted"
  by (simp add: predict_all_def reset_def two_balls_def two_balls_predicted_def
      predict_movement_def store2_def body_defs point_defs calculate_sweept_body_def Let_def
      struct_insert_def proxy_def)

lemma two_balls_moving_query:
  "query_collisions_with_moving_bodies plane_geometry 0 2 0 two_balls_predicted
     = Inr (two_balls_predicted\<lparr>collision_candidates := [(1, BodyPair 0 1)]\<rparr>)"
  by (simp add: two_balls_predicted_def query_collisions_with_moving_bodies_def
      movement_query_def plane_geometry_def proxy_def Point_def
      push_to_collision_candidates_def store2_def toc_two_balls pair_eq_def)

lemma two_balls_static_query:
  "query_collisions_with_static_bodies plane_geometry 0 2 0 two_balls_predicted
     = Inr two_balls_predicted"
  by (simp add: two_balls_predicted_def query_collisions_with_static_bodies_def
      static_query_def plane_geometry_def proxy_def Point_def bounding_box_def ball_sel store2_def)

lemma two_balls_broadphase:
  "broadphase plane_geometry (map fst (moving_bodies two_balls_predicted)) 2 two_balls_predicted
     = Inr two_balls_queued"
  by (simp add: two_balls_predicted_def two_balls_queued_def update_collision_candidates_def
      query_collisions_with_moving_bodies_def query_collisions_with_static_bodies_def
      movement_query_def static_query_def plane_geometry_def proxy_def Point_def
      push_to_collision_candidates_def store2_def toc_two_balls pair_eq_def
      bounding_box_def ball_sel)

lemma two_balls_first_contact:
  "check_collision plane_geometry 0 1 1 0 2
     (two_balls_queued\<lparr>collision_candidates := [(1, BodyPair 1 0)]\<rparr>)
   = Inr (two_balls_resolved\<lparr>collision_candidates := [(1, BodyPair 1 0)]\<rparr>)"
  by (simp add: two_balls_queued_def two_balls_predicted_def two_balls_resolved_def
      check_collision_def comparing_shape_def resolve_collision_def handle_contact_def
      remove_moving_body_def
      predict_movement_def store_update_body_forces_def update_body_forces_def store_update_def
      body_handle_collision_def calculate_sweept_body_def struct_insert_def struct_remove_def
      plane_geometry_def store2_def body_defs point_defs proxy_def Let_def fun_eq_iff)

lemma two_balls_second_contact:
  "check_collision plane_geometry 1 0 1 1 2 two_balls_resolved = Inr two_balls_resolved"
  by (simp add: two_balls_resolved_def check_collision_def comparing_shape_def
      plane_geometry_def store2_def body_defs point_defs proxy_def Let_def)

lemma two_balls_detect:
  "detect_collisions plane_geometry 2 two_balls_queued = Inr two_balls_resolved"
proof -
  have c: "collision_candidates two_balls_queued = [(1, BodyPair 0 1), (1, BodyPair 1 0)]"
    by (simp add: two_balls_queued_def)
  have r: "two_balls_resolved\<lparr>collision_candidates := []\<rparr> = two_balls_resolved"
    by (simp add: two_balls_resolved_def)
  have e: "collision_candidates two_balls_resolved = []"
    by (simp add: two_balls_resolved_def)
  have "detect_loop plane_geometry 2 0 two_balls_queued
        = detect_loop plane_geometry 2 1
            (two_balls_resolved\<lparr>collision_candidates := [(1, BodyPair 1 0)]\<rparr>)"
    by (subst detect_loop.simps) (simp add: c two_balls_first_contact del: One_nat_def)
  also have "\<dots> = detect_loop plane_geometry 2 2 two_balls_resolved"
    by (subst detect_loop.simps) (simp add: r two_balls_second_contact del: One_nat_def)
  also have "\<dots> = Inr two_balls_resolved"
    by (subst detect_loop.simps) (simp add: e)
  finally show ?thesis by (simp add: detect_collisions_def)
qed

lemma two_balls_commit: "commit 2 two_balls_resolved = two_balls_committed"
  by (simp add: commit_def two_balls_resolved_def two_balls_committed_def store_update_def
      store2_def body_defs point_defs fun_eq_iff)

lemma two_balls_before_commit:
  "before_commit plane_geometry 2 two_balls = Inr two_balls_resolved"
  by (simp add: before_commit_def two_balls_predict two_balls_broadphase two_balls_detect)

lemma two_balls_tick: "update plane_geometry 2 two_balls = Inr two_balls_committed"
  by (simp add: update_def two_balls_before_commit two_balls_commit)


text \<open>The tick of the ball and the static body.\<close>

lemma wall_sel:
  "shape wall = \<lparr>center = Point 20 0, radius = 5\<rparr>"
  "speed wall = Point 0 0" "mass wall = 1" "is_static wall = True" "is_tangible wall = True"
  by (simp_all add: wall_def ball_def)

lemma sqrt_25600: "sqrt 25600 = 160"
  by (rule real_sqrt_unique) simp_all

lemma toc_wall: "time_of_collision (ball 0 0 5 8 0 1) wall = Finite (5 / 4)"
  by (simp add: time_of_collision_def toc_t1_def toc_t2_def toc_defs ball_sel wall_sel Point_def
      sqrt_25600)

lemma wall_predict: "predict_all 2 (reset wall_world) = wall_predicted"
  by (simp add: predict_all_def reset_def wall_world_def wall_predicted_def
      predict_movement_def store2_def wall_def body_defs point_defs calculate_sweept_body_def
      Let_def struct_insert_def proxy_def)

lemma wall_broadphase:
  "broadphase plane_geometry (map fst (moving_bodies wall_predicted)) 2 wall_predicted
     = Inr wall_queued"
  by (simp add: wall_predicted_def wall_world_def wall_queued_def update_collision_candidates_def
      query_collisions_with_moving_bodies_def query_collisions_with_static_bodies_def
      movement_query_def static_query_def plane_geometry_def proxy_def Point_def
      push_to_collision_candidates_def store2_def toc_wall pair_eq_def
      bounding_box_def ball_sel wall_sel)

lemma wall_handle_contact: "handle_contact 0 1 0 2 wall_stopped = Inr wall_handled"
  by (simp add: wall_stopped_def wall_handled_def wall_predicted_def wall_world_def
      handle_contact_def remove_moving_body_def predict_movement_def struct_remove_def
      store2_def wall_def body_defs point_defs proxy_def Let_def)

lemma wall_contact:
  "check_collision plane_geometry 0 1 (5 / 4) 0 2 (wall_queued\<lparr>collision_candidates := []\<rparr>)
     = Inr wall_resolved"
  by (simp add: wall_queued_def wall_predicted_def wall_world_def wall_resolved_def
      wall_handled_def
      check_collision_def comparing_shape_def resolve_collision_def handle_contact_def
      remove_moving_body_def
      predict_movement_def store_update_body_forces_def update_body_forces_def store_update_def
      body_handle_collision_def calculate_sweept_body_def struct_insert_def struct_remove_def
      plane_geometry_def store2_def wall_def body_defs point_defs proxy_def Let_def fun_eq_iff)

lemma wall_detect: "detect_collisions plane_geometry 2 wall_queued = Inr wall_resolved"
proof -
  have c: "collision_candidates wall_queued = [(5 / 4, BodyPair 0 1)]"
    by (simp add: wall_queued_def)
  have e: "collision_candidates wall_resolved = []"
    by (simp add: wall_resolved_def wall_handled_def wall_world_def)
  have "detect_loop plane_geometry 2 0 wall_queued
        = detect_loop plane_geometry 2 (5 / 4) wall_resolved"
    by (subst detect_loop.simps) (simp add: c wall_contact del: One_nat_def)
  also have "\<dots> = Inr wall_resolved"
    by (subst detect_loop.simps) (simp add: e)
  finally show ?thesis by (simp add: detect_collisions_def)
qed

lemma wall_before_commit: "before_commit plane_geometry 2 wall_world = Inr wall_resolved"
  by (simp add: before_commit_def wall_predict wall_broadphase wall_detect)

lemma wall_commit: "commit 2 wall_resolved = wall_resolved"
  by (simp add: commit_def wall_resolved_def wall_handled_def wall_world_def)

lemma wall_tick: "update plane_geometry 2 wall_world = Inr wall_resolved"
  by (simp add: update_def wall_before_commit wall_commit)

text \<open>The tick of the two lanes.\<close>

lemma far_wall_sel:
  "shape far_wall = \<lparr>center = Point 20 100, radius = 5\<rparr>"
  "speed far_wall = Point 0 0" "mass far_wall = 1" "is_static far_wall = True"
  "is_tangible far_wall = True"
  by (simp_all add: far_wall_def ball_def)

lemma sqrt_10000: "sqrt 10000 = 100"
  by (rule real_sqrt_unique) simp_all

lemma toc_far_wall: "time_of_collision (ball 0 100 5 5 0 3) far_wall = Finite 2"
  by (simp add: time_of_collision_def toc_t1_def toc_t2_def toc_defs ball_sel far_wall_sel
      Point_def sqrt_10000)

lemma lanes_predict: "predict_all 2 (reset lanes) = lanes_predicted"
  by (simp add: predict_all_def reset_def lanes_def lanes_predicted_def
      predict_movement_def store4_def wall_def far_wall_def body_defs point_defs
      calculate_sweept_body_def Let_def struct_insert_def proxy_def)

lemma lanes_broadphase:
  "broadphase plane_geometry (map fst (moving_bodies lanes_predicted)) 2 lanes_predicted
     = Inr lanes_queued"
  by (simp add: lanes_predicted_def lanes_def lanes_queued_def update_collision_candidates_def
      query_collisions_with_moving_bodies_def query_collisions_with_static_bodies_def
      movement_query_def static_query_def plane_geometry_def proxy_def Point_def
      push_to_collision_candidates_def store4_def toc_wall toc_far_wall pair_eq_def
      bounding_box_def ball_sel wall_sel far_wall_sel)

lemmas world_defs = check_collision_def comparing_shape_def resolve_collision_def
  handle_contact_def remove_moving_body_def predict_movement_def store_update_body_forces_def
  update_body_forces_def store_update_def body_handle_collision_def calculate_sweept_body_def
  struct_insert_def struct_remove_def plane_geometry_def

lemma lanes_first_contact:
  "check_collision plane_geometry 0 1 (5 / 4) 0 2
     (lanes_queued\<lparr>collision_candidates := [(2, BodyPair 2 3)]\<rparr>) = Inr lanes_first"
  by (simp add: lanes_queued_def lanes_predicted_def lanes_def lanes_first_def world_defs
      store4_def wall_def far_wall_def body_defs point_defs proxy_def Let_def fun_eq_iff)

lemma lanes_second_contact:
  "check_collision plane_geometry 2 3 2 (5 / 4) 2 (lanes_first\<lparr>collision_candidates := []\<rparr>)
     = Inr lanes_resolved"
  by (simp add: lanes_first_def lanes_def lanes_resolved_def world_defs
      store4_def wall_def far_wall_def body_defs point_defs proxy_def Let_def fun_eq_iff)

lemma lanes_detect: "detect_collisions plane_geometry 2 lanes_queued = Inr lanes_resolved"
proof -
  have c: "collision_candidates lanes_queued = [(5 / 4, BodyPair 0 1), (2, BodyPair 2 3)]"
    by (simp add: lanes_queued_def)
  have f: "collision_candidates lanes_first = [(2, BodyPair 2 3)]"
    by (simp add: lanes_first_def)
  have e: "collision_candidates lanes_resolved = []"
    by (simp add: lanes_resolved_def lanes_def)
  have "detect_loop plane_geometry 2 0 lanes_queued = detect_loop plane_geometry 2 (5 / 4) lanes_first"
    by (subst detect_loop.simps) (simp add: c lanes_first_contact del: One_nat_def)
  also have "\<dots> = detect_loop plane_geometry 2 (13 / 4) lanes_resolved"
    by (subst detect_loop.simps) (simp add: f lanes_second_contact del: One_nat_def)
  also have "\<dots> = Inr lanes_resolved"
    by (subst detect_loop.simps) (simp add: e)
  finally show ?thesis by (simp add: detect_collisions_def)
qed

lemma lanes_before_commit: "before_commit plane_geometry 2 lanes = Inr lanes_resolved"
  by (simp add: before_commit_def lanes_predict lanes_broadphase lanes_detect)

lemma lanes_commit: "commit 2 lanes_resolved = lanes_committed"
  by (simp add: commit_def lanes_resolved_def lanes_committed_def lanes_def store_update_def
      store4_def body_defs point_defs fun_eq_iff)

lemma lanes_tick: "update plane_geometry 2 lanes = Inr lanes_committed"
  by (simp add: update_def lanes_before_commit lanes_commit)

section \<open>Notification without response\<close>

text \<open>
  C7: a popped candidate that passes the narrow-phase test while at least one of its bodies
  is intangible makes the world call the collision response of the first body with the
  second and of the second with the first, and changes nothing else: the bodies (position
  and velocity included), the moving records, the movement index and the queue stay as
  they are.
\<close>

theorem check_collision_intangible:
  assumes "collides_with G (comparing_shape w body_a toc) (comparing_shape w body_b toc)"
    and "\<not> (is_tangible (bodies w body_a) \<and> is_tangible (bodies w body_b))"
  shows "check_collision G body_a body_b toc current_time end_time w
           = Inr (w\<lparr>notified := notified w @ [(body_a, body_b), (body_b, body_a)]\<rparr>)"
proof -
  from assms(2)
  have "resolve_collision body_a body_b toc current_time end_time w
          = Inr (body_handle_collision body_b body_a (body_handle_collision body_a body_b w))"
    unfolding resolve_collision_def by (cases "is_tangible (bodies w body_a)") simp_all
  with assms(1) show ?thesis
    by (simp add: check_collision_def body_handle_collision_def)
qed

theorem check_collision_intangible_witness:
  "collides_with plane_geometry (comparing_shape ghost_world 0 1) (comparing_shape ghost_world 1 1)
   \<and> \<not> (is_tangible (bodies ghost_world 0) \<and> is_tangible (bodies ghost_world 1))
   \<and> check_collision plane_geometry 0 1 1 0 2 ghost_world
       = Inr (ghost_world\<lparr>notified := [(0, 1), (1, 0)]\<rparr>)"
proof -
  have c: "collides_with plane_geometry (comparing_shape ghost_world 0 1)
             (comparing_shape ghost_world 1 1)"
    by (simp add: ghost_world_def two_balls_queued_def two_balls_predicted_def
        comparing_shape_def plane_geometry_def store2_def body_defs point_defs)
  have t: "\<not> (is_tangible (bodies ghost_world 0) \<and> is_tangible (bodies ghost_world 1))"
    by (simp add: ghost_world_def store2_def ball_def)
  have n: "notified ghost_world = []"
    by (simp add: ghost_world_def two_balls_queued_def two_balls_predicted_def)
  from check_collision_intangible [OF c t, of 0 2] n c t show ?thesis by simp
qed

section \<open>De-duplication\<close>

lemma pair_eq_sym: "pair_eq p q \<Longrightarrow> pair_eq q p"
  by (auto simp: pair_eq_def)

lemma pair_eq_trans: "pair_eq p q \<Longrightarrow> pair_eq q r \<Longrightarrow> pair_eq p r"
  by (auto simp: pair_eq_def)

lemma count_pair_heappush:
  "count_pair p (heappush xs item) = count_pair p xs + (if pair_eq (snd item) p then 1 else 0)"
  by (induction xs) (auto simp: count_pair_def)

lemma count_pair_push:
  "count_pair p (collision_candidates (push_to_collision_candidates c dt st w))
     \<le> count_pair p (collision_candidates w) + (if pair_eq c p then 1 else 0)"
  by (simp add: push_to_collision_candidates_def count_pair_heappush split: np_float.splits)

lemma count_pair_push_new_pairs:
  "count_pair p (collision_candidates (push_new_pairs cs pairs dt st w))
     \<le> count_pair p (collision_candidates w)
        + (if list_ex (\<lambda>q. pair_eq q p) pairs then 0 else 1)"
proof (induction cs arbitrary: pairs w)
  case Nil
  then show ?case by simp
next
  case (Cons c cs)
  show ?case
  proof (cases "list_ex (\<lambda>q. pair_eq q c) pairs")
    case True
    then show ?thesis using Cons.IH [of pairs w] by simp
  next
    case new: False
    let ?w = "push_to_collision_candidates c dt st w"
    note ih = Cons.IH [of "pairs @ [c]" ?w]
    show ?thesis
    proof (cases "pair_eq c p")
      case True
      have "\<not> list_ex (\<lambda>q. pair_eq q p) pairs"
      proof
        assume "list_ex (\<lambda>q. pair_eq q p) pairs"
        then obtain q where "q \<in> set pairs" "pair_eq q p" by (auto simp: list_ex_iff)
        with True have "pair_eq q c" by (blast intro: pair_eq_trans pair_eq_sym)
        with \<open>q \<in> set pairs\<close> new show False by (auto simp: list_ex_iff)
      qed
      with True new ih count_pair_push [of p c dt st w] show ?thesis by simp
    next
      case False
      with new ih count_pair_push [of p c dt st w] show ?thesis by simp
    qed
  qed
qed

text \<open>
  The list \<open>pairs\<close> that filters duplicates is created anew in every query, so one query
  (of the movement index or of the static index, for one body) pushes any unordered pair
  at most once.
\<close>

lemma query_pushes_pair_once:
  "(\<forall>w'. query_collisions_with_moving_bodies G body delta_time start_time w = Inr w' \<longrightarrow>
          count_pair p (collision_candidates w') \<le> Suc (count_pair p (collision_candidates w)))
   \<and> (\<forall>w'. query_collisions_with_static_bodies G body delta_time start_time w = Inr w' \<longrightarrow>
          count_pair p (collision_candidates w') \<le> Suc (count_pair p (collision_candidates w)))"
proof -
  have "count_pair p (collision_candidates (push_new_pairs cs [] delta_time start_time w))
          \<le> Suc (count_pair p (collision_candidates w))" for cs
    using count_pair_push_new_pairs [of p cs "[]" delta_time start_time w] by simp
  then show ?thesis
    by (auto simp: query_collisions_with_moving_bodies_def query_collisions_with_static_bodies_def
        split: option.splits sum.splits)
qed

text \<open>
  C3: a pass is claimed to push every unordered pair at most once, whichever body of the
  pair starts the query. In the tick of the two balls both balls hold a moving record and
  their proxies overlap: the query of ball 0 pushes the pair (0, 1), the query of ball 1
  pushes the pair (1, 0), and the queue holds the same unordered pair twice.
\<close>

theorem broadphase_pushes_pair_twice:
  "broadphase plane_geometry (map fst (moving_bodies (predict_all 2 (reset two_balls)))) 2
     (predict_all 2 (reset two_balls)) = Inr two_balls_queued
   \<and> collision_candidates two_balls_queued = [(1, BodyPair 0 1), (1, BodyPair 1 0)]
   \<and> count_pair (BodyPair 0 1) (collision_candidates two_balls_queued) = 2"
  by (simp add: two_balls_predict two_balls_broadphase)
     (simp add: two_balls_queued_def count_pair_def pair_eq_def)

section \<open>Invariants of the per-tick state\<close>

lemma static_free_iff:
  "static_free w \<longleftrightarrow>
     (\<forall>body \<in> fst ` set (moving_bodies w). \<not> is_static (bodies w body))
     \<and> (\<forall>obj \<in> set (movement_spatial_struct w).
           \<exists>body. map_of (sweept_bodies w) (sid obj) = Some body \<and> \<not> is_static (bodies w body))"
  by (auto simp: static_free_def list_all_iff split: option.splits)

lemma static_free_frame:
  assumes "moving_bodies w' = moving_bodies w" "sweept_bodies w' = sweept_bodies w"
    "movement_spatial_struct w' = movement_spatial_struct w"
    "\<And>body. is_static (bodies w' body) = is_static (bodies w body)"
  shows "static_free w' = static_free w"
  by (simp add: static_free_iff assms)

lemma keys_distinct_frame:
  "moving_bodies w' = moving_bodies w \<Longrightarrow> keys_distinct w' = keys_distinct w"
  by (simp add: keys_distinct_def)

lemma is_static_body_update: "is_static (body_update b dt) = is_static b"
  by (simp add: body_update_def)

lemma is_static_update_body_forces:
  "update_body_forces A B = Inr (A', B') \<Longrightarrow> is_static A' = is_static A \<and> is_static B' = is_static B"
  by (auto simp: update_body_forces_def split: sum.splits if_splits)

subsection \<open>Steps that leave the records alone\<close>

lemma store_update_frame:
  "moving_bodies (store_update body dt w) = moving_bodies w"
  "sweept_bodies (store_update body dt w) = sweept_bodies w"
  "movement_spatial_struct (store_update body dt w) = movement_spatial_struct w"
  "is_static (bodies (store_update body dt w) b) = is_static (bodies w b)"
  by (simp_all add: store_update_def is_static_body_update)

lemma store_update_body_forces_frame:
  assumes "store_update_body_forces body_a body_b w = Inr w'"
  shows "moving_bodies w' = moving_bodies w" "sweept_bodies w' = sweept_bodies w"
    "movement_spatial_struct w' = movement_spatial_struct w"
    "is_static (bodies w' b) = is_static (bodies w b)"
proof -
  from assms obtain new_a new_b
    where u: "update_body_forces (bodies w body_a) (bodies w body_b) = Inr (new_a, new_b)"
      and w': "w' = w\<lparr>bodies := (bodies w)(body_a := new_a, body_b := new_b)\<rparr>"
    by (auto simp: store_update_body_forces_def split: sum.splits prod.splits)
  from w' show "moving_bodies w' = moving_bodies w" "sweept_bodies w' = sweept_bodies w"
    "movement_spatial_struct w' = movement_spatial_struct w" by simp_all
  from is_static_update_body_forces [OF u] w'
  show "is_static (bodies w' b) = is_static (bodies w b)" by simp
qed

lemma body_handle_collision_frame:
  "moving_bodies (body_handle_collision a b w) = moving_bodies w"
  "sweept_bodies (body_handle_collision a b w) = sweept_bodies w"
  "movement_spatial_struct (body_handle_collision a b w) = movement_spatial_struct w"
  "bodies (body_handle_collision a b w) = bodies w"
  by (simp_all add: body_handle_collision_def)

lemma push_to_collision_candidates_frame:
  "moving_bodies (push_to_collision_candidates p dt st w) = moving_bodies w"
  "sweept_bodies (push_to_collision_candidates p dt st w) = sweept_bodies w"
  "movement_spatial_struct (push_to_collision_candidates p dt st w) = movement_spatial_struct w"
  "bodies (push_to_collision_candidates p dt st w) = bodies w"
  by (simp_all add: push_to_collision_candidates_def split: np_float.splits)

lemma push_new_pairs_frame:
  "moving_bodies (push_new_pairs cs pairs dt st w) = moving_bodies w"
  "sweept_bodies (push_new_pairs cs pairs dt st w) = sweept_bodies w"
  "movement_spatial_struct (push_new_pairs cs pairs dt st w) = movement_spatial_struct w"
  "bodies (push_new_pairs cs pairs dt st w) = bodies w"
  by (induction cs arbitrary: pairs w; simp add: push_to_collision_candidates_frame)+

lemma update_collision_candidates_frame:
  assumes "update_collision_candidates G body dt st w = Inr w'"
  shows "moving_bodies w' = moving_bodies w" "sweept_bodies w' = sweept_bodies w"
    "movement_spatial_struct w' = movement_spatial_struct w" "bodies w' = bodies w"
  using assms
  by (auto simp: update_collision_candidates_def query_collisions_with_moving_bodies_def
      query_collisions_with_static_bodies_def push_new_pairs_frame
      split: if_splits option.splits sum.splits)

lemma broadphase_frame:
  assumes "broadphase G bs dt w = Inr w'"
  shows "moving_bodies w' = moving_bodies w \<and> sweept_bodies w' = sweept_bodies w
    \<and> movement_spatial_struct w' = movement_spatial_struct w \<and> bodies w' = bodies w"
  using assms
proof (induction bs arbitrary: w)
  case Nil
  then show ?case by simp
next
  case (Cons b bs)
  from Cons.prems obtain w1 where 1: "update_collision_candidates G b dt 0 w = Inr w1"
    and 2: "broadphase G bs dt w1 = Inr w'"
    by (auto split: sum.splits)
  from Cons.IH [OF 2] update_collision_candidates_frame [OF 1] show ?case by simp
qed

subsection \<open>Registering and removing a record\<close>

lemma predict_movement_bodies: "bodies (predict_movement body dt w) = bodies w"
  by (simp add: predict_movement_def Let_def)

lemma predict_movement_keys:
  "fst ` set (moving_bodies (predict_movement body dt w)) =
     (if \<not> is_static (bodies w body) \<and> predict_position (bodies w body) dt \<noteq> position (bodies w body)
      then insert body (fst ` set (moving_bodies w)) else fst ` set (moving_bodies w))"
  by (simp add: predict_movement_def Let_def dom_update)

lemma predict_movement_static_free:
  assumes "static_free w"
  shows "static_free (predict_movement body dt w)"
proof (cases "\<not> is_static (bodies w body) \<and> predict_position (bodies w body) dt \<noteq> position (bodies w body)")
  case False
  then have "predict_movement body dt w = w" by (auto simp: predict_movement_def)
  with assms show ?thesis by simp
next
  case True
  let ?w = "predict_movement body dt w"
  let ?sb = "calculate_sweept_body (allocated w) (bodies w body) (predict_position (bodies w body) dt)"
  from True have idx: "movement_spatial_struct ?w = movement_spatial_struct w @ [?sb]"
    and tab: "map_of (sweept_bodies ?w) = (map_of (sweept_bodies w))(sid ?sb \<mapsto> body)"
    by (simp_all add: predict_movement_def Let_def struct_insert_def update_conv')
  show ?thesis
    unfolding static_free_iff predict_movement_bodies predict_movement_keys idx tab
    using assms True by (auto simp: static_free_iff)
qed

lemma predict_movement_keys_distinct:
  "keys_distinct w \<Longrightarrow> keys_distinct (predict_movement body dt w)"
  by (simp add: keys_distinct_def predict_movement_def Let_def distinct_update)

lemma remove_moving_body_bodies:
  "remove_moving_body body w = Inr w' \<Longrightarrow> bodies w' = bodies w"
  by (auto simp: remove_moving_body_def split: option.splits)

lemma keys_delete: "fst ` set (AList.delete k al) = fst ` set al - {k}"
proof -
  have "set (map fst (AList.delete k al)) = set (map fst al) - {k}"
    unfolding delete_keys by simp
  then show ?thesis by simp
qed

lemma remove_moving_body_keys:
  assumes "remove_moving_body body w = Inr w'"
  shows "fst ` set (moving_bodies w') = fst ` set (moving_bodies w) - {body}"
proof (cases "map_of (moving_bodies w) body")
  case None
  then have "body \<notin> fst ` set (moving_bodies w)" by (simp add: map_of_eq_None_iff)
  moreover from None assms have "w' = w" by (simp add: remove_moving_body_def)
  ultimately show ?thesis by simp
next
  case (Some entry)
  with assms have "moving_bodies w' = AList.delete body (moving_bodies w)"
    by (auto simp: remove_moving_body_def split: option.splits prod.splits)
  then show ?thesis by (simp add: keys_delete)
qed

lemma remove_moving_body_static_free:
  assumes "remove_moving_body body w = Inr w'" "static_free w"
  shows "static_free w'"
proof (cases "map_of (moving_bodies w) body")
  case None
  with assms show ?thesis by (simp add: remove_moving_body_def)
next
  case (Some entry)
  obtain p q sb where entry: "entry = (p, q, sb)" by (cases entry) auto
  from assms(1) Some entry
  have tab: "map_of (sweept_bodies w') = (map_of (sweept_bodies w))(sid sb := None)"
    and idx: "movement_spatial_struct w' = filter (\<lambda>other. sid other \<noteq> sid sb) (movement_spatial_struct w)"
    by (auto simp: remove_moving_body_def struct_remove_def delete_conv' split: option.splits)
  have keys: "fst ` set (moving_bodies w') = fst ` set (moving_bodies w) - {body}"
    by (rule remove_moving_body_keys [OF assms(1)])
  have 1: "\<forall>k \<in> fst ` set (moving_bodies w'). \<not> is_static (bodies w k)"
    unfolding keys using assms(2) unfolding static_free_iff by blast
  have 2: "\<forall>obj \<in> set (movement_spatial_struct w').
             \<exists>k. map_of (sweept_bodies w') (sid obj) = Some k \<and> \<not> is_static (bodies w k)"
    unfolding idx tab using assms(2) unfolding static_free_iff by auto
  from 1 2 show ?thesis
    unfolding static_free_iff remove_moving_body_bodies [OF assms(1)] by blast
qed

lemma remove_moving_body_keys_distinct:
  "remove_moving_body body w = Inr w' \<Longrightarrow> keys_distinct w \<Longrightarrow> keys_distinct w'"
  by (auto simp: remove_moving_body_def keys_distinct_def distinct_delete split: option.splits)

subsection \<open>Contact handling\<close>

lemma handle_contact_bodies:
  "handle_contact a b ct et w = Inr w' \<Longrightarrow> bodies w' = bodies w"
  by (auto simp: handle_contact_def Let_def predict_movement_bodies
      dest!: remove_moving_body_bodies split: sum.splits)

lemma handle_contact_static_free:
  "handle_contact a b ct et w = Inr w' \<Longrightarrow> static_free w \<Longrightarrow> static_free w'"
  by (auto simp: handle_contact_def Let_def split: sum.splits
      intro!: predict_movement_static_free dest: remove_moving_body_static_free)

lemma handle_contact_keys_distinct:
  "handle_contact a b ct et w = Inr w' \<Longrightarrow> keys_distinct w \<Longrightarrow> keys_distinct w'"
  by (auto simp: handle_contact_def Let_def split: sum.splits
      intro!: predict_movement_keys_distinct dest: remove_moving_body_keys_distinct)

lemma handle_contact_keys:
  assumes "handle_contact a b ct et w = Inr w'"
  shows "fst ` set (moving_bodies w') =
           (fst ` set (moving_bodies w) - {a, b})
           \<union> {body. (body = a \<or> body = b) \<and> \<not> is_static (bodies w body)
                    \<and> predict_position (bodies w body) (et - ct) \<noteq> position (bodies w body)}"
proof -
  from assms obtain w1 w2 where 1: "remove_moving_body a w = Inr w1"
    and 2: "remove_moving_body b w1 = Inr w2"
    and 3: "w' = predict_movement b (et - ct) (predict_movement a (et - ct) w2)"
    by (auto simp: handle_contact_def Let_def split: sum.splits)
  have b: "bodies w2 = bodies w"
    using remove_moving_body_bodies [OF 1] remove_moving_body_bodies [OF 2] by simp
  have k: "fst ` set (moving_bodies w2) = fst ` set (moving_bodies w) - {a, b}"
    using remove_moving_body_keys [OF 1] remove_moving_body_keys [OF 2] by auto
  show ?thesis
    unfolding 3 predict_movement_keys predict_movement_bodies b k by auto
qed

lemma resolve_collision_static_free:
  assumes "resolve_collision a b toc ct et w = Inr w'" "static_free w"
  shows "static_free w'"
proof (cases "is_tangible (bodies w a) \<and> is_tangible (bodies w b)")
  case False
  with assms(1)
  have "w' = body_handle_collision b a (body_handle_collision a b w)"
    by (auto simp: resolve_collision_def)
  then have "static_free w' = static_free w"
    by (intro static_free_frame) (simp_all add: body_handle_collision_frame)
  with assms(2) show ?thesis by simp
next
  case True
  define td :: real where "td = (if toc = 0 then 1 / 100 else 0)"
  let ?w0 = "store_update b (ct - td) (store_update a (ct - td) w)"
  from True assms(1) obtain w1 w2
    where 1: "store_update_body_forces a b ?w0 = Inr w1"
      and 2: "handle_contact a b ct et w1 = Inr w2"
      and 3: "w' = body_handle_collision b a (body_handle_collision a b w2)"
    by (auto simp: resolve_collision_def Let_def td_def split: sum.splits if_splits)
  have "static_free ?w0 = static_free w"
    by (intro static_free_frame) (simp_all add: store_update_frame)
  moreover have "static_free w1 = static_free ?w0"
    by (intro static_free_frame) (simp_all add: store_update_body_forces_frame [OF 1])
  moreover have "static_free w' = static_free w2"
    unfolding 3 by (intro static_free_frame) (simp_all add: body_handle_collision_frame)
  ultimately show ?thesis
    using assms(2) handle_contact_static_free [OF 2] by simp
qed

lemma resolve_collision_keys_distinct:
  assumes "resolve_collision a b toc ct et w = Inr w'" "keys_distinct w"
  shows "keys_distinct w'"
proof (cases "is_tangible (bodies w a) \<and> is_tangible (bodies w b)")
  case False
  with assms(1)
  have "w' = body_handle_collision b a (body_handle_collision a b w)"
    by (auto simp: resolve_collision_def)
  with assms(2) show ?thesis
    by (simp add: keys_distinct_def body_handle_collision_frame)
next
  case True
  define td :: real where "td = (if toc = 0 then 1 / 100 else 0)"
  let ?w0 = "store_update b (ct - td) (store_update a (ct - td) w)"
  from True assms(1) obtain w1 w2
    where 1: "store_update_body_forces a b ?w0 = Inr w1"
      and 2: "handle_contact a b ct et w1 = Inr w2"
      and 3: "w' = body_handle_collision b a (body_handle_collision a b w2)"
    by (auto simp: resolve_collision_def Let_def td_def split: sum.splits if_splits)
  have "keys_distinct w1"
    using assms(2)
    by (simp add: keys_distinct_def store_update_body_forces_frame [OF 1] store_update_frame)
  from handle_contact_keys_distinct [OF 2 this] show ?thesis
    by (simp add: 3 keys_distinct_def body_handle_collision_frame)
qed

lemma check_collision_static_free:
  "check_collision G a b toc ct et w = Inr w' \<Longrightarrow> static_free w \<Longrightarrow> static_free w'"
  by (auto simp: check_collision_def Let_def split: if_splits
      dest: resolve_collision_static_free)

lemma check_collision_keys_distinct:
  "check_collision G a b toc ct et w = Inr w' \<Longrightarrow> keys_distinct w \<Longrightarrow> keys_distinct w'"
  by (auto simp: check_collision_def Let_def split: if_splits
      dest: resolve_collision_keys_distinct)

lemma detect_loop_static_free:
  "detect_loop G dt ct w = Inr w' \<Longrightarrow> static_free w \<Longrightarrow> static_free w'"
proof (induction G dt ct w rule: detect_loop.induct)
  case (1 G dt ct w)
  show ?case
  proof (cases "collision_candidates w")
    case Nil
    with "1.prems" show ?thesis by (simp add: detect_loop.simps)
  next
    case (Cons item rest)
    obtain toc pair where item: "item = (toc, pair)" by (cases item) auto
    let ?w = "w\<lparr>collision_candidates := rest\<rparr>"
    from "1.prems"(1) Cons item obtain w1
      where c: "check_collision G (pair_body_a pair) (pair_body_b pair) toc ct dt ?w = Inr w1"
        and d: "detect_loop G dt (ct + toc) w1 = Inr w'"
      by (subst (asm) detect_loop.simps) (auto split: sum.splits)
    have "static_free ?w = static_free w" by (intro static_free_frame) simp_all
    with "1.prems"(2) check_collision_static_free [OF c] have "static_free w1" by simp
    with "1.IH" [OF Cons item [symmetric] c d] show ?thesis by simp
  qed
qed

lemma detect_loop_keys_distinct:
  "detect_loop G dt ct w = Inr w' \<Longrightarrow> keys_distinct w \<Longrightarrow> keys_distinct w'"
proof (induction G dt ct w rule: detect_loop.induct)
  case (1 G dt ct w)
  show ?case
  proof (cases "collision_candidates w")
    case Nil
    with "1.prems" show ?thesis by (simp add: detect_loop.simps)
  next
    case (Cons item rest)
    obtain toc pair where item: "item = (toc, pair)" by (cases item) auto
    let ?w = "w\<lparr>collision_candidates := rest\<rparr>"
    from "1.prems"(1) Cons item obtain w1
      where c: "check_collision G (pair_body_a pair) (pair_body_b pair) toc ct dt ?w = Inr w1"
        and d: "detect_loop G dt (ct + toc) w1 = Inr w'"
      by (subst (asm) detect_loop.simps) (auto split: sum.splits)
    have "keys_distinct ?w = keys_distinct w" by (simp add: keys_distinct_def)
    with "1.prems"(2) check_collision_keys_distinct [OF c] have "keys_distinct w1" by simp
    with "1.IH" [OF Cons item [symmetric] c d] show ?thesis by simp
  qed
qed

subsection \<open>The phases of a tick\<close>

lemma reset_static_free: "static_free (reset w)"
  by (simp add: static_free_def reset_def)

lemma reset_keys_distinct: "keys_distinct (reset w)"
  by (simp add: keys_distinct_def reset_def)

lemma fold_predict_static_free:
  "static_free w \<Longrightarrow> static_free (fold (\<lambda>body. predict_movement body dt) bs w)"
  by (induction bs arbitrary: w) (simp_all add: predict_movement_static_free)

lemma fold_predict_keys_distinct:
  "keys_distinct w \<Longrightarrow> keys_distinct (fold (\<lambda>body. predict_movement body dt) bs w)"
  by (induction bs arbitrary: w) (simp_all add: predict_movement_keys_distinct)

lemma broadphase_static_free:
  assumes "broadphase G bs dt w = Inr w'" "static_free w"
  shows "static_free w'"
proof -
  have "static_free w' = static_free w"
    by (intro static_free_frame) (simp_all add: broadphase_frame [OF assms(1)])
  with assms(2) show ?thesis by simp
qed

lemma broadphase_keys_distinct:
  "broadphase G bs dt w = Inr w' \<Longrightarrow> keys_distinct w \<Longrightarrow> keys_distinct w'"
  by (simp add: keys_distinct_def broadphase_frame)

lemma update_collision_candidates_static_free:
  assumes "update_collision_candidates G body dt st w = Inr w'" "static_free w"
  shows "static_free w'"
proof -
  have "static_free w' = static_free w"
    by (intro static_free_frame) (simp_all add: update_collision_candidates_frame [OF assms(1)])
  with assms(2) show ?thesis by simp
qed

lemma before_commit_static_free:
  assumes "before_commit G dt w = Inr w'"
  shows "static_free w'"
proof -
  let ?w1 = "predict_all dt (reset w)"
  from assms obtain w2 where 1: "broadphase G (map fst (moving_bodies ?w1)) dt ?w1 = Inr w2"
    and 2: "detect_loop G dt 0 w2 = Inr w'"
    by (auto simp: before_commit_def detect_collisions_def Let_def split: sum.splits)
  have "static_free ?w1"
    unfolding predict_all_def by (rule fold_predict_static_free) (rule reset_static_free)
  from detect_loop_static_free [OF 2 broadphase_static_free [OF 1 this]]
  show ?thesis .
qed

lemma before_commit_keys_distinct:
  assumes "before_commit G dt w = Inr w'"
  shows "keys_distinct w'"
proof -
  let ?w1 = "predict_all dt (reset w)"
  from assms obtain w2 where 1: "broadphase G (map fst (moving_bodies ?w1)) dt ?w1 = Inr w2"
    and 2: "detect_loop G dt 0 w2 = Inr w'"
    by (auto simp: before_commit_def detect_collisions_def Let_def split: sum.splits)
  have "keys_distinct ?w1"
    unfolding predict_all_def by (rule fold_predict_keys_distinct) (rule reset_keys_distinct)
  from detect_loop_keys_distinct [OF 2 broadphase_keys_distinct [OF 1 this]]
  show ?thesis .
qed

lemma fold_store_update_frame:
  "moving_bodies (fold (\<lambda>body. store_update body dt) bs w) = moving_bodies w
   \<and> sweept_bodies (fold (\<lambda>body. store_update body dt) bs w) = sweept_bodies w
   \<and> movement_spatial_struct (fold (\<lambda>body. store_update body dt) bs w) = movement_spatial_struct w
   \<and> collision_candidates (fold (\<lambda>body. store_update body dt) bs w) = collision_candidates w
   \<and> notified (fold (\<lambda>body. store_update body dt) bs w) = notified w
   \<and> (\<forall>b. is_static (bodies (fold (\<lambda>body. store_update body dt) bs w) b) = is_static (bodies w b))"
  by (induction bs arbitrary: w) (simp_all add: store_update_def is_static_body_update)

lemma fold_store_update_bodies:
  "distinct bs \<Longrightarrow>
   bodies (fold (\<lambda>body. store_update body dt) bs w) b =
     (if b \<in> set bs then body_update (bodies w b) dt else bodies w b)"
proof (induction bs arbitrary: w)
  case Nil
  then show ?case by simp
next
  case (Cons c bs)
  then show ?case by (auto simp: store_update_def)
qed

lemma commit_bodies:
  "keys_distinct w \<Longrightarrow>
   bodies (commit dt w) b =
     (if b \<in> fst ` set (moving_bodies w) then body_update (bodies w b) dt else bodies w b)"
  unfolding commit_def keys_distinct_def
  by (simp add: fold_store_update_bodies)

lemma commit_static_free: "static_free w \<Longrightarrow> static_free (commit dt w)"
proof -
  have "static_free (commit dt w) = static_free w"
    unfolding commit_def by (intro static_free_frame) (simp_all add: fold_store_update_frame)
  then show "static_free w \<Longrightarrow> static_free (commit dt w)" by simp
qed

lemma update_static_free:
  "update G dt w = Inr w' \<Longrightarrow> static_free w'"
  by (auto simp: update_def split: sum.splits
      intro: commit_static_free before_commit_static_free)

section \<open>Static bodies\<close>

lemma predict_movement_registers:
  assumes "moving_bodies (predict_movement body dt w) \<noteq> moving_bodies w
           \<or> movement_spatial_struct (predict_movement body dt w) \<noteq> movement_spatial_struct w"
  shows "\<not> is_static (bodies w body)
         \<and> predict_position (bodies w body) dt \<noteq> position (bodies w body)"
proof (rule ccontr)
  assume "\<not> ?thesis"
  then have "predict_movement body dt w = w" by (auto simp: predict_movement_def)
  with assms show False by simp
qed

lemma store_update_static_free: "static_free w \<Longrightarrow> static_free (store_update body dt w)"
proof -
  have "static_free (store_update body dt w) = static_free w"
    by (intro static_free_frame) (simp_all add: store_update_frame)
  then show "static_free w \<Longrightarrow> static_free (store_update body dt w)" by simp
qed

lemma store_update_body_forces_static_free:
  assumes "store_update_body_forces a b w = Inr w'" "static_free w"
  shows "static_free w'"
proof -
  have "static_free w' = static_free w"
    by (intro static_free_frame) (simp_all add: store_update_body_forces_frame [OF assms(1)])
  with assms(2) show ?thesis by simp
qed

lemma push_static_free:
  "static_free w \<Longrightarrow> static_free (push_to_collision_candidates p dt st w)"
proof -
  have "static_free (push_to_collision_candidates p dt st w) = static_free w"
    by (intro static_free_frame) (simp_all add: push_to_collision_candidates_frame)
  then show "static_free w \<Longrightarrow> static_free (push_to_collision_candidates p dt st w)" by simp
qed

lemma notify_static_free: "static_free w \<Longrightarrow> static_free (body_handle_collision a b w)"
proof -
  have "static_free (body_handle_collision a b w) = static_free w"
    by (intro static_free_frame) (simp_all add: body_handle_collision_frame)
  then show "static_free w \<Longrightarrow> static_free (body_handle_collision a b w)" by simp
qed

lemma pop_static_free: "static_free w \<Longrightarrow> static_free (w\<lparr>collision_candidates := rest\<rparr>)"
proof -
  have "static_free (w\<lparr>collision_candidates := rest\<rparr>) = static_free w"
    by (intro static_free_frame) simp_all
  then show "static_free w \<Longrightarrow> static_free (w\<lparr>collision_candidates := rest\<rparr>)" by simp
qed

text \<open>
  C9: no static body holds a moving record or owns a proxy in the movement index, at any
  point of a tick. The property holds after RESET, every step that changes the state of
  the world keeps it (registering and removing a record, pushing and popping a candidate,
  advancing a body, exchanging velocities, notifying, and the methods built from them),
  so it holds before COMMIT and when \<open>update\<close> returns. Movement prediction changes the
  records or the index only for a body that is not static and whose predicted position
  differs from its position.
\<close>

theorem static_bodies_hold_no_record:
  "static_free (reset w)
   \<and> (static_free w \<longrightarrow> static_free (predict_movement body delta_time w))
   \<and> (moving_bodies (predict_movement body delta_time w) \<noteq> moving_bodies w
        \<or> movement_spatial_struct (predict_movement body delta_time w) \<noteq> movement_spatial_struct w
      \<longrightarrow> \<not> is_static (bodies w body)
          \<and> predict_position (bodies w body) delta_time \<noteq> position (bodies w body))
   \<and> (static_free w \<longrightarrow> (\<forall>w'. remove_moving_body body w = Inr w' \<longrightarrow> static_free w'))
   \<and> (static_free w \<longrightarrow> static_free (push_to_collision_candidates pair delta_time start_time w))
   \<and> (static_free w \<longrightarrow> static_free (w\<lparr>collision_candidates := rest\<rparr>))
   \<and> (static_free w \<longrightarrow> static_free (store_update body delta_time w))
   \<and> (static_free w \<longrightarrow>
        (\<forall>w'. store_update_body_forces body_a body_b w = Inr w' \<longrightarrow> static_free w'))
   \<and> (static_free w \<longrightarrow> static_free (body_handle_collision body_a body_b w))
   \<and> (static_free w \<longrightarrow>
        (\<forall>w'. handle_contact body_a body_b current_time end_time w = Inr w' \<longrightarrow> static_free w'))
   \<and> (static_free w \<longrightarrow>
        (\<forall>w'. check_collision G body_a body_b toc current_time end_time w = Inr w' \<longrightarrow>
              static_free w'))
   \<and> (static_free w \<longrightarrow>
        (\<forall>w'. update_collision_candidates G body delta_time start_time w = Inr w' \<longrightarrow>
              static_free w'))
   \<and> (static_free w \<longrightarrow>
        (\<forall>w'. detect_collisions G delta_time w = Inr w' \<longrightarrow> static_free w'))
   \<and> (\<forall>w'. before_commit G delta_time w = Inr w' \<longrightarrow> static_free w')
   \<and> (\<forall>w'. update G delta_time w = Inr w' \<longrightarrow> static_free w')"
  using reset_static_free [of w] predict_movement_static_free [of w body delta_time]
    predict_movement_registers [of body delta_time w]
    remove_moving_body_static_free [of body w]
    push_static_free [of w pair delta_time start_time] pop_static_free [of w rest]
    store_update_static_free [of w body delta_time]
    store_update_body_forces_static_free [of body_a body_b w]
    notify_static_free [of w body_a body_b]
    handle_contact_static_free [of body_a body_b current_time end_time w]
    check_collision_static_free [of G body_a body_b toc current_time end_time w]
    update_collision_candidates_static_free [of G body delta_time start_time w]
    detect_loop_static_free [of G delta_time 0 w, folded detect_collisions_def]
    before_commit_static_free [of G delta_time w]
    update_static_free [of G delta_time w]
  by blast

lemma drifting_wall_predict:
  "predict_movement 1 2 (reset drifting_wall_world) = reset drifting_wall_world"
  by (simp add: predict_movement_def drifting_wall_world_def two_balls_def reset_def store2_def)

text \<open>
  A static body whose velocity would move it is not registered, a moving ball is; and
  the property holds after the tick of the ball and the static body that it hits, and
  after the tick of the two balls.
\<close>

theorem static_bodies_hold_no_record_witness:
  "static_free (reset drifting_wall_world)
   \<and> is_static (bodies (reset drifting_wall_world) 1)
   \<and> predict_position (bodies (reset drifting_wall_world) 1) 2
        \<noteq> position (bodies (reset drifting_wall_world) 1)
   \<and> predict_movement 1 2 (reset drifting_wall_world) = reset drifting_wall_world
   \<and> static_free (predict_movement 0 2 (reset drifting_wall_world))
   \<and> moving_bodies (predict_movement 0 2 (reset drifting_wall_world))
        \<noteq> moving_bodies (reset drifting_wall_world)
   \<and> \<not> is_static (bodies (reset drifting_wall_world) 0)
   \<and> static_free wall_predicted
   \<and> handle_contact 0 1 0 2 wall_stopped = Inr wall_handled
   \<and> static_free wall_stopped \<and> static_free wall_handled
   \<and> update plane_geometry 2 wall_world = Inr wall_resolved
   \<and> is_static (bodies wall_resolved 1)
   \<and> static_free wall_resolved
   \<and> update plane_geometry 2 two_balls = Inr two_balls_committed
   \<and> static_free two_balls_committed"
proof -
  note t = static_bodies_hold_no_record
  have 1: "static_free (reset drifting_wall_world)"
    using t [of drifting_wall_world] by blast
  have 2: "static_free (predict_movement 0 2 (reset drifting_wall_world))"
    using t [of "reset drifting_wall_world" 0 2] 1 by blast
  have 3: "moving_bodies (predict_movement 0 2 (reset drifting_wall_world))
             \<noteq> moving_bodies (reset drifting_wall_world)"
    by (simp add: predict_movement_def drifting_wall_world_def two_balls_def reset_def store2_def
        body_defs point_defs Let_def)
  with t [of "reset drifting_wall_world" 0 2]
  have 4: "\<not> is_static (bodies (reset drifting_wall_world) 0)"
    by blast
  have 5: "static_free two_balls_committed"
    using t [of two_balls _ 2 _ _ _ _ _ _ _ plane_geometry] two_balls_tick by blast
  have 6: "is_static (bodies (reset drifting_wall_world) 1)"
    "predict_position (bodies (reset drifting_wall_world) 1) 2
       \<noteq> position (bodies (reset drifting_wall_world) 1)"
    by (simp_all add: drifting_wall_world_def two_balls_def reset_def store2_def body_defs
        point_defs)
  have 7: "static_free wall_resolved"
    using t [of wall_world _ 2 _ _ _ _ _ _ _ plane_geometry] wall_tick by blast
  have 8: "is_static (bodies wall_resolved 1)"
    by (simp add: wall_resolved_def wall_handled_def wall_world_def store2_def wall_def)
  have 9: "static_free wall_predicted"
    by (simp add: static_free_def wall_predicted_def wall_world_def store2_def ball_def proxy_def)
  have 10: "static_free wall_stopped"
    by (simp add: static_free_def wall_stopped_def wall_predicted_def wall_world_def store2_def
        ball_def proxy_def)
  have 11: "static_free wall_handled"
    using t [of wall_stopped _ _ _ _ _ 0 1 0 2] 10 wall_handle_contact by blast
  from 1 2 3 4 5 6 7 8 9 10 11 drifting_wall_predict two_balls_tick wall_tick
    wall_handle_contact
  show ?thesis by blast
qed

section \<open>Commit\<close>

text \<open>
  COMMIT advances exactly the bodies that hold a moving record when RESOLVE ends, each by
  the full tick duration. Handling a contact removes the records of both bodies and
  registers each again when the body is not static and its position predicted for the
  remaining time differs from its position.
\<close>

lemma commit_advances_recorded_bodies:
  "(\<forall>w3. before_commit G delta_time w = Inr w3 \<longrightarrow>
      update G delta_time w = Inr (commit delta_time w3)
      \<and> (\<forall>body. bodies (commit delta_time w3) body =
            (if body \<in> fst ` set (moving_bodies w3)
             then body_update (bodies w3 body) delta_time else bodies w3 body)))
   \<and> (\<forall>w'. handle_contact body_a body_b current_time end_time w = Inr w' \<longrightarrow>
      (body_a \<in> fst ` set (moving_bodies w') \<longleftrightarrow>
         \<not> is_static (bodies w body_a)
         \<and> predict_position (bodies w body_a) (end_time - current_time) \<noteq> position (bodies w body_a))
      \<and> (body_b \<in> fst ` set (moving_bodies w') \<longleftrightarrow>
         \<not> is_static (bodies w body_b)
         \<and> predict_position (bodies w body_b) (end_time - current_time) \<noteq> position (bodies w body_b)))"
proof -
  have 1: "update G delta_time w = Inr (commit delta_time w3)
      \<and> (\<forall>body. bodies (commit delta_time w3) body =
            (if body \<in> fst ` set (moving_bodies w3)
             then body_update (bodies w3 body) delta_time else bodies w3 body))"
    if "before_commit G delta_time w = Inr w3" for w3
    using that commit_bodies [OF before_commit_keys_distinct [OF that]]
    by (simp add: update_def)
  have 2: "(body_a \<in> fst ` set (moving_bodies w') \<longleftrightarrow>
         \<not> is_static (bodies w body_a)
         \<and> predict_position (bodies w body_a) (end_time - current_time) \<noteq> position (bodies w body_a))
      \<and> (body_b \<in> fst ` set (moving_bodies w') \<longleftrightarrow>
         \<not> is_static (bodies w body_b)
         \<and> predict_position (bodies w body_b) (end_time - current_time) \<noteq> position (bodies w body_b))"
    if "handle_contact body_a body_b current_time end_time w = Inr w'" for w'
    unfolding handle_contact_keys [OF that] by auto
  from 1 2 show ?thesis by blast
qed

text \<open>
  C6: a body whose contact was resolved during the tick is claimed to be left out of the
  commit, so that it is never advanced by the full duration on top of the advance made
  during the resolution. In the tick of the two lanes the contact of ball 2 is the second
  candidate popped: the resolution advances the ball by the loop's current time 5/4, from
  (0, 100) to (25/4, 100), and registers it again for the remaining time 3/4; COMMIT then
  advances it by the full duration 2, to (45/4, 100).
\<close>

theorem resolved_body_advanced_twice:
  "before_commit plane_geometry 2 lanes = Inr lanes_resolved
   \<and> notified lanes_resolved = [(0, 1), (1, 0), (2, 3), (3, 2)]
   \<and> position (bodies lanes 2) = Point 0 100
   \<and> position (bodies lanes_resolved 2) = predict_position (bodies lanes 2) (5 / 4)
   \<and> position (bodies lanes_resolved 2) = Point (25 / 4) 100
   \<and> map_of (moving_bodies lanes_resolved) 2
       = Some (Point (25 / 4) 100, predict_position (bodies lanes_resolved 2) (2 - 5 / 4),
               proxy 2 (5 / 4) 105 (105 / 8) 95)
   \<and> update plane_geometry 2 lanes = Inr lanes_committed
   \<and> bodies lanes_committed 2 = body_update (bodies lanes_resolved 2) 2
   \<and> position (bodies lanes_committed 2) = Point (45 / 4) 100"
  by (simp add: lanes_before_commit lanes_tick)
     (simp add: lanes_committed_def lanes_resolved_def lanes_def store4_def body_defs point_defs)

section \<open>Remaining time of a resolved contact\<close>

text \<open>
  C2: a contact popped at time of impact \<open>t\<close> in a tick of duration \<open>D\<close> is claimed to
  re-predict both bodies for \<open>D - t\<close>. In the sample the first candidate has \<open>t = 1\<close> and
  \<open>D = 2\<close>; the loop passes its variable \<open>current_time\<close>, still 0, and adds \<open>t\<close> to it only
  after the call, so ball 0 (velocity (-2, 0) after the exchange) is re-predicted for the
  whole duration 2, to (-4, 0), and not for the remaining time 1, to (-2, 0).
\<close>

theorem first_contact_repredicts_whole_tick:
  "broadphase plane_geometry (map fst (moving_bodies (predict_all 2 (reset two_balls)))) 2
     (predict_all 2 (reset two_balls)) = Inr two_balls_queued
   \<and> collision_candidates two_balls_queued = [(1, BodyPair 0 1), (1, BodyPair 1 0)]
   \<and> detect_collisions plane_geometry 2 two_balls_queued = Inr two_balls_resolved
   \<and> map_of (moving_bodies two_balls_resolved) 0
       = Some (Point 0 0, predict_position (bodies two_balls_resolved 0) 2, proxy 2 (- 5) 5 1 (- 5))
   \<and> predict_position (bodies two_balls_resolved 0) 2 = Point (- 4) 0
   \<and> predict_position (bodies two_balls_resolved 0) (2 - 1) = Point (- 2) 0"
  by (simp add: two_balls_predict two_balls_broadphase two_balls_detect)
     (simp add: two_balls_queued_def two_balls_resolved_def store2_def body_defs point_defs)

end
